theory Spec2Isabelle
  imports Complex_Main "HOL-Library.Multiset"
begin

section \<open>Numbers and JavaScript operators\<close>

text \<open>
  The simulation core is TypeScript. A JavaScript \<open>number\<close> is modelled as a \<^typ>\<open>real\<close>:
  arithmetic is exact, and the values \<open>NaN\<close>, \<open>Infinity\<close> and the rounding of IEEE-754
  doubles (and of \<open>Float32Array\<close> stores) are outside the model. Integer-valued counters
  (the arpeggio index and its direction flag) are \<^typ>\<open>int\<close>.
\<close>

text \<open>\<open>x || d\<close> on numbers: the left operand unless it is falsy (zero).\<close>

definition js_or :: "real \<Rightarrow> real \<Rightarrow> real" where
  "js_or x d = (if x = 0 then d else x)"

text \<open>\<open>Math.trunc\<close>, and the remainder \<open>a % b\<close>, whose sign follows the dividend.\<close>

definition js_trunc :: "real \<Rightarrow> int" where
  "js_trunc x = (if 0 \<le> x then \<lfloor>x\<rfloor> else \<lceil>x\<rceil>)"

definition js_rem :: "real \<Rightarrow> real \<Rightarrow> real" where
  "js_rem a b = a - b * of_int (js_trunc (a / b))"

text \<open>The same remainder on integer-valued numbers.\<close>

definition js_irem :: "int \<Rightarrow> int \<Rightarrow> int" where
  "js_irem a b = sgn a * (\<bar>a\<bar> mod \<bar>b\<bar>)"

text \<open>\<open>Math.round\<close>: the nearest integer, halves rounded up.\<close>

definition js_round :: "real \<Rightarrow> int" where
  "js_round x = \<lfloor>x + 1 / 2\<rfloor>"

section \<open>Data model (types.ts)\<close>

datatype ModulationSource =
    SrcSpeed | SrcAcceleration | SrcAltitude | SrcDescent | SrcTurning
  | SrcTurningSigned | SrcHeading | SrcPitch | SrcProximity | SrcTime

datatype ModulationTarget =
    MasterVolume
  | DroneGain | DroneFilter | DronePitch
  | AtmosphereGain
  | ArpGain | ArpSpeed | ArpFilter | ArpOctaves | ArpDirection
  | RhythmGain | RhythmFilter | RhythmBpm
  | MelodyGain | MelodyDensity
  | ReverbMix | ReverbTone

record Modulation =
  mod_id :: string
  mod_enabled :: bool
  mod_source :: ModulationSource
  mod_target :: ModulationTarget
  mod_amount :: real

record ReverbConfig =
  reverb_enabled :: bool
  reverb_mix :: real
  reverb_decay :: real
  reverb_tone :: real

record DroneConfig =
  drone_enabled :: bool
  drone_gain :: real
  drone_filter :: real
  drone_pitch :: real

datatype Texture = Smooth | Grit

record AtmosphereConfig =
  atmosphere_enabled :: bool
  atmosphere_gain :: real
  atmosphere_texture :: Texture

datatype ScaleName = Dorian | Phrygian | Lydian

record MelodyConfig =
  melody_enabled :: bool
  melody_gain :: real
  melody_density :: real
  melody_scale :: ScaleName

datatype Direction = Up | Down | UpDown | Random

text \<open>
  \<open>direction\<close> is read as \<open>cfg.arp.direction ?? 'updown'\<close>, so the field may be
  undefined at run time although the interface declares it.
\<close>

record ArpConfig =
  arp_enabled :: bool
  arp_gain :: real
  arp_speed :: real
  arp_octaves :: real
  arp_filter :: real
  arp_direction :: "Direction option"

record RhythmConfig =
  rhythm_enabled :: bool
  rhythm_gain :: real
  rhythm_bpm :: real
  rhythm_filter :: real

record SoundConfig =
  sound_enabled :: bool
  masterVolume :: real
  reverb :: ReverbConfig
  drone :: DroneConfig
  atmosphere :: AtmosphereConfig
  melody :: MelodyConfig
  arp :: ArpConfig
  rhythm :: RhythmConfig
  modulations :: "Modulation list"

section \<open>Constants of the store\<close>

definition defaultModulations :: "Modulation list" where
  "defaultModulations =
    [ \<lparr>mod_id = ''1'', mod_enabled = True, mod_source = SrcSpeed, mod_target = DroneFilter, mod_amount = 0.4\<rparr>,
      \<lparr>mod_id = ''5'', mod_enabled = True, mod_source = SrcAltitude, mod_target = AtmosphereGain, mod_amount = 0.15\<rparr>,
      \<lparr>mod_id = ''6'', mod_enabled = True, mod_source = SrcAltitude, mod_target = DronePitch, mod_amount = - 0.1\<rparr>,
      \<lparr>mod_id = ''new1'', mod_enabled = True, mod_source = SrcPitch, mod_target = ArpDirection, mod_amount = 1.5\<rparr>,
      \<lparr>mod_id = ''new2'', mod_enabled = True, mod_source = SrcSpeed, mod_target = ArpSpeed, mod_amount = 0.8\<rparr>,
      \<lparr>mod_id = ''new3'', mod_enabled = True, mod_source = SrcPitch, mod_target = ArpOctaves, mod_amount = 1.0\<rparr> ]"

definition defaultSoundConfig :: SoundConfig where
  "defaultSoundConfig =
    \<lparr> sound_enabled = True,
      masterVolume = 0.5,
      reverb = \<lparr>reverb_enabled = True, reverb_mix = 0.5, reverb_decay = 5.0, reverb_tone = 2000\<rparr>,
      drone = \<lparr>drone_enabled = True, drone_gain = 0.4, drone_filter = 100, drone_pitch = 0\<rparr>,
      atmosphere = \<lparr>atmosphere_enabled = True, atmosphere_gain = 0.2, atmosphere_texture = Grit\<rparr>,
      melody = \<lparr>melody_enabled = True, melody_gain = 0.3, melody_density = 0.4, melody_scale = Dorian\<rparr>,
      arp = \<lparr>arp_enabled = True, arp_gain = 0.25, arp_speed = 1.0, arp_octaves = 2, arp_filter = 600,
              arp_direction = Some UpDown\<rparr>,
      rhythm = \<lparr>rhythm_enabled = True, rhythm_gain = 0.4, rhythm_bpm = 60, rhythm_filter = 150\<rparr>,
      modulations = defaultModulations \<rparr>"

text \<open>Modulation ranges: what "100%" means for each target.\<close>

fun MOD_RANGES :: "ModulationTarget \<Rightarrow> real" where
  "MOD_RANGES MasterVolume = 1.0"
| "MOD_RANGES DroneGain = 1.0"
| "MOD_RANGES DroneFilter = 2000"
| "MOD_RANGES DronePitch = 24"
| "MOD_RANGES AtmosphereGain = 1.0"
| "MOD_RANGES ArpGain = 1.0"
| "MOD_RANGES ArpSpeed = 3.0"
| "MOD_RANGES ArpFilter = 4000"
| "MOD_RANGES ArpOctaves = 3"
| "MOD_RANGES ArpDirection = 1.0"
| "MOD_RANGES RhythmGain = 1.0"
| "MOD_RANGES RhythmFilter = 2000"
| "MOD_RANGES RhythmBpm = 100"
| "MOD_RANGES MelodyGain = 1.0"
| "MOD_RANGES MelodyDensity = 1.0"
| "MOD_RANGES ReverbMix = 1.0"
| "MOD_RANGES ReverbTone = 5000"

text \<open>Musical scales (MIDI note numbers).\<close>

fun SCALES :: "ScaleName \<Rightarrow> int list" where
  "SCALES Dorian = [62, 64, 65, 67, 69, 71, 72, 74]"
| "SCALES Phrygian = [62, 63, 65, 67, 69, 70, 72]"
| "SCALES Lydian = [62, 64, 66, 67, 69, 71, 73]"

section \<open>Modulation router (gameLoop, audio block)\<close>

text \<open>
  The accumulators are reset every frame to the base values of the current sound
  configuration; the direction target has no numeric base and starts from 0.
\<close>

fun base_values :: "SoundConfig \<Rightarrow> ModulationTarget \<Rightarrow> real" where
  "base_values sound MasterVolume = masterVolume sound"
| "base_values sound DroneGain = drone_gain (drone sound)"
| "base_values sound DroneFilter = drone_filter (drone sound)"
| "base_values sound DronePitch = drone_pitch (drone sound)"
| "base_values sound AtmosphereGain = atmosphere_gain (atmosphere sound)"
| "base_values sound ArpGain = arp_gain (arp sound)"
| "base_values sound ArpSpeed = arp_speed (arp sound)"
| "base_values sound ArpFilter = arp_filter (arp sound)"
| "base_values sound ArpOctaves = arp_octaves (arp sound)"
| "base_values sound ArpDirection = 0"
| "base_values sound RhythmGain = rhythm_gain (rhythm sound)"
| "base_values sound RhythmFilter = rhythm_filter (rhythm sound)"
| "base_values sound RhythmBpm = rhythm_bpm (rhythm sound)"
| "base_values sound MelodyGain = melody_gain (melody sound)"
| "base_values sound MelodyDensity = melody_density (melody sound)"
| "base_values sound ReverbMix = reverb_mix (reverb sound)"
| "base_values sound ReverbTone = reverb_tone (reverb sound)"

text \<open>
  The loop over the modulation list: a disabled entry is skipped, an enabled one adds
  \<open>(inputs[source] || 0) * amount * (MOD_RANGES[target] || 1.0)\<close> to its target.
\<close>

fun route_loop ::
  "(ModulationTarget \<Rightarrow> real) \<Rightarrow> (ModulationSource \<Rightarrow> real) \<Rightarrow> Modulation list
    \<Rightarrow> (ModulationTarget \<Rightarrow> real)" where
  "route_loop acc inputs [] = acc"
| "route_loop acc inputs (m # ms) =
     (if \<not> mod_enabled m then route_loop acc inputs ms
      else route_loop
             (acc(mod_target m :=
                acc (mod_target m)
                  + js_or (inputs (mod_source m)) 0 * mod_amount m * js_or (MOD_RANGES (mod_target m)) 1.0))
             inputs ms)"

definition route :: "SoundConfig \<Rightarrow> (ModulationSource \<Rightarrow> real) \<Rightarrow> (ModulationTarget \<Rightarrow> real)" where
  "route sound inputs = route_loop (base_values sound) inputs (modulations sound)"



section \<open>Arpeggio stepping (playArpNote)\<close>

record LiveAudioState =
  rhythmBpm :: real
  arpSpeed :: real
  arpOctaves :: real
  melodyDensity :: real

text \<open>\<open>scale.length * max(1, round(arpOctaves))\<close>.\<close>

definition totalNotes :: "SoundConfig \<Rightarrow> LiveAudioState \<Rightarrow> int" where
  "totalNotes cfg live =
     int (length (SCALES (melody_scale (melody cfg)))) * max 1 (js_round (arpOctaves live))"

text \<open>
  The direction in force: the configured one (\<open>'updown'\<close> when undefined), overridden
  by the routed direction offset beyond 0.3 in either sense.
\<close>

definition effective_direction :: "SoundConfig \<Rightarrow> (ModulationTarget \<Rightarrow> real) \<Rightarrow> Direction" where
  "effective_direction cfg acc =
     (let direction = (case arp_direction (arp cfg) of None \<Rightarrow> UpDown | Some d \<Rightarrow> d);
          dirMod = acc ArpDirection
      in if dirMod > 0.3 then Up else if dirMod < - 0.3 then Down else direction)"

text \<open>
  The index update of one arpeggio note, on the pair (index, internal direction); the
  index is updated first and the note of the updated index is the one that sounds.
  \<open>rnd\<close> is the value of \<open>Math.random()\<close>.
\<close>

definition arp_advance :: "Direction \<Rightarrow> int \<Rightarrow> real \<Rightarrow> int \<times> int \<Rightarrow> int \<times> int" where
  "arp_advance direction totalN rnd r =
     (let (idx, dir) = r;
          (idx1, dir1) =
            (case direction of
               Up \<Rightarrow> (js_irem (idx + 1) totalN, dir)
             | Down \<Rightarrow> (js_irem (idx - 1 + totalN) totalN, dir)
             | Random \<Rightarrow> (\<lfloor>rnd * of_int totalN\<rfloor>, dir)
             | UpDown \<Rightarrow>
                 (let i = idx + dir
                  in if i \<ge> totalN - 1 then (totalN - 1, - 1)
                     else if i \<le> 0 then (0, 1)
                     else (i, dir)))
      in (max 0 (min (totalN - 1) idx1), dir1))"

section \<open>Distance to the surface (getPlanet1Distance)\<close>

type_synonym vec3 = "real \<times> real \<times> real"

definition js_nullish :: "'a option \<Rightarrow> 'a \<Rightarrow> 'a" where
  "js_nullish v d = (case v of None \<Rightarrow> d | Some x \<Rightarrow> x)"

text \<open>The GLSL-style \<open>mod(v, y)\<close> written as \<open>((v % y) + y) % y\<close>.\<close>

definition glsl_mod :: "real \<Rightarrow> real \<Rightarrow> real" where
  "glsl_mod v y = js_rem (js_rem v y + y) y"

text \<open>One pass of the loop body at cell size \<open>i\<close>: rotate about Y, fold, update \<open>d\<close>.\<close>

definition planet1_fold :: "real \<Rightarrow> real \<Rightarrow> real \<Rightarrow> real \<Rightarrow> vec3 \<times> real \<Rightarrow> vec3 \<times> real" where
  "planet1_fold rot pulse t i qd =
     (let q0 = fst (fst qd); q1 = fst (snd (fst qd)); q2 = snd (snd (fst qd)); d = snd qd;
          angle = rot + sin (t * 1.0 + q1 * 5.0) * pulse;
          c = cos angle;
          s = sin angle;
          r0 = q0 * c + q2 * s;
          r1 = q1;
          r2 = - q0 * s + q2 * c;
          two_i = i + i;
          qx = \<bar>glsl_mod r0 two_i - i\<bar>;
          qy = \<bar>glsl_mod r1 two_i - i\<bar>;
          qz = \<bar>glsl_mod r2 two_i - i\<bar>;
          i9 = i * 0.9;
          n0 = i9 - qx;
          n1 = i9 - qy;
          n2 = i9 - qz
      in ((n0, n1, n2), max d (min n0 (min n1 n2))))"

text \<open>
  \<open>while (i > 0.05) { ...; i *= scale }\<close>. The loop does not end when the scale uniform
  is 1 or more, so the result is optional.
\<close>

partial_function (option) planet1_loop ::
  "real \<Rightarrow> real \<Rightarrow> real \<Rightarrow> real \<Rightarrow> real \<Rightarrow> vec3 \<times> real \<Rightarrow> real option" where
  "planet1_loop scale rot pulse t i qd =
     (if i > 0.05 then planet1_loop scale rot pulse t (i * scale) (planet1_fold rot pulse t i qd)
      else Some (snd qd))"

definition getPlanet1Distance :: "vec3 \<Rightarrow> (string \<rightharpoonup> real) \<Rightarrow> real \<Rightarrow> real option" where
  "getPlanet1Distance p_vec uniforms t =
     (let scale = js_nullish (uniforms ''slider_fractalScale'') 0.37;
          rot = js_nullish (uniforms ''slider_fractalRotation'') 1.09;
          pulse = js_nullish (uniforms ''slider_fractalPulseStrength'') 0.0
      in planet1_loop scale rot pulse t 58.0 (p_vec, - fst (snd p_vec)))"

section \<open>The store\<close>

record ControlConfig =
  invertStrafe :: "bool option"
  invertForward :: "bool option"
  invertAscend :: "bool option"
  invertPitch :: "bool option"
  invertYaw :: "bool option"
  forwardVelocity :: "real option"
  strafeVelocity :: "real option"
  ascendVelocity :: "real option"
  pitchVelocity :: "real option"
  yawVelocity :: "real option"

record CameraData =
  position :: vec3
  rotation :: "real \<times> real"
  roll :: real

datatype CollisionState = NoCollision | Approaching | Colliding

datatype ViewMode = Cockpit | Chase

text \<open>Which instrument buses the audio graph was built with (initAudio).\<close>

record AudioNodes =
  nodes_reverb :: bool
  nodes_drone :: bool
  nodes_atmosphere :: bool
  nodes_arp :: bool
  nodes_rhythm :: bool

text \<open>
  The state and refs of the store that the frame loop and the session functions read or
  write. The shader text editor, sliders, terraforming, the ship configuration and the
  view-mode fade are not part of the model: no function below reads them.
  \<open>lastTime\<close> is the closure variable of the frame loop; \<open>audioContext\<close> says whether an
  audio context exists.
\<close>

record Store =
  currentSessionId :: string
  activeShaderCode :: string
  cameraControlsEnabled :: bool
  controlConfig :: ControlConfig
  soundConfig :: SoundConfig
  uniforms :: "string \<rightharpoonup> real"
  canvasSize :: string
  viewMode :: ViewMode
  isHdEnabled :: bool
  isFpsEnabled :: bool
  isHudEnabled :: bool
  collisionThresholdRed :: real
  collisionThresholdYellow :: real
  keysPressed :: "string set"
  lastTime :: real
  accumulatedTime :: real
  camera :: CameraData
  renderCamera :: CameraData
  cameraVelocity :: vec3
  cameraAngularVelocity :: "real \<times> real"
  cameraRoll :: real
  isMoving :: bool
  collisionState :: CollisionState
  collisionProximity :: real
  collisionCooldown :: real
  previousSpeed :: real
  audioInputs :: "ModulationSource \<Rightarrow> real"
  audioTargetAccumulators :: "ModulationTarget \<Rightarrow> real"
  audioContext :: bool
  audioNodes :: "AudioNodes option"
  liveAudioState :: LiveAudioState
  nextMelodyTime :: real
  nextArpTime :: real
  nextRhythmTime :: real
  arpNoteIndex :: int
  arpInternalDirection :: int

definition INITIAL_CAMERA_POS :: vec3 where
  "INITIAL_CAMERA_POS = (0, - 1.49, 0)"

definition INITIAL_CAMERA_ROT :: "real \<times> real" where
  "INITIAL_CAMERA_ROT = (0.1, 0.0)"

definition defaultCanvasSize :: string where
  "defaultCanvasSize = ''100%''"

section \<open>The frame loop (gameLoop)\<close>

text \<open>
  What one frame receives from outside: the frame timestamp in milliseconds, the audio
  clock \<open>ctx.currentTime\<close>, and the three values of \<open>Math.random()\<close> that the scheduler
  and the arpeggio draw.
\<close>

record FrameInput =
  timestamp :: real
  audioNow :: real
  rndMelodyDraw :: real
  rndMelodyInterval :: real
  rndArp :: real

text \<open>The calls that a frame makes on the audio generators, with the play time passed.\<close>

datatype GeneratorCall =
    PlayCollisionSound
  | PlayGenerativeNote real
  | PlayArpNote real
  | PlayRhythm real

subsection \<open>Physics and camera\<close>

text \<open>\<open>dt\<close>: milliseconds since the last frame as seconds, at most 0.1; 0 on the first frame.\<close>

definition frame_dt :: "real \<Rightarrow> Store \<Rightarrow> real" where
  "frame_dt ts st =
     (let lastTime0 = (if lastTime st = 0 then ts else lastTime st)
      in min ((ts - lastTime0) / 1000.0) 0.1)"

text \<open>A signed axis from two keys, negated when its inversion flag is set.\<close>

definition axis :: "string set \<Rightarrow> string \<Rightarrow> string \<Rightarrow> bool option \<Rightarrow> real" where
  "axis keys pos neg invert =
     (let a = (if pos \<in> keys then 1 else 0) - (if neg \<in> keys then 1 else 0)
      in if invert = Some True then - a else a)"

definition FLIGHT_PITCH_OFFSET :: real where
  "FLIGHT_PITCH_OFFSET = 0.1"

definition target_velocity :: "ControlConfig \<Rightarrow> string set \<Rightarrow> real \<times> real \<Rightarrow> vec3" where
  "target_velocity controls keys rot =
     (let fwd = axis keys ''w'' ''s'' (invertForward controls);
          str = axis keys ''d'' ''a'' (invertStrafe controls);
          asc = axis keys '' '' ''shift'' (invertAscend controls);
          p = fst rot;
          y = snd rot;
          spd = 1.0;
          dirX = sin y * cos (p - FLIGHT_PITCH_OFFSET);
          dirY = - sin (p - FLIGHT_PITCH_OFFSET);
          dirZ = cos y * cos (p - FLIGHT_PITCH_OFFSET);
          rightX = cos y;
          rightZ = - sin y;
          tVX = (dirX * fwd * js_nullish (forwardVelocity controls) 1
                  + rightX * str * js_nullish (strafeVelocity controls) 1) * spd;
          tVY = (dirY * fwd * js_nullish (forwardVelocity controls) 1
                  + asc * js_nullish (ascendVelocity controls) 1) * spd;
          tVZ = (dirZ * fwd * js_nullish (forwardVelocity controls) 1
                  + rightZ * str * js_nullish (strafeVelocity controls) 1) * spd
      in (tVX, tVY, tVZ))"

text \<open>\<open>v += (target - v) * k\<close> on each component.\<close>

definition smooth3 :: "real \<Rightarrow> vec3 \<Rightarrow> vec3 \<Rightarrow> vec3" where
  "smooth3 k tv v =
     (case (tv, v) of ((tx, ty, tz), (vx, vy, vz)) \<Rightarrow>
        (vx + (tx - vx) * k, vy + (ty - vy) * k, vz + (tz - vz) * k))"

definition proposed_position :: "vec3 \<Rightarrow> vec3 \<Rightarrow> real \<Rightarrow> vec3" where
  "proposed_position currentPos v dt =
     (case (currentPos, v) of ((px, py, pz), (vx, vy, vz)) \<Rightarrow>
        (px + vx * dt, py + vy * dt, pz + vz * dt))"

text \<open>
  The branch on the distance at the proposed position. It returns the frame's new state
  and proximity, the store (velocity zeroed and cooldown restarted on a collision) and
  the collision sound if it was triggered.
\<close>

definition collision_branch ::
  "real \<Rightarrow> real \<Rightarrow> Store \<Rightarrow> CollisionState \<times> real \<times> Store \<times> GeneratorCall list" where
  "collision_branch surfaceDist ts st =
     (if surfaceDist < collisionThresholdRed st then
        (let st1 = st\<lparr>cameraVelocity := (0, 0, 0)\<rparr>
         in if collisionState st1 \<noteq> Colliding \<and> ts - collisionCooldown st1 > 500 then
              (Colliding, 1.0, st1\<lparr>collisionCooldown := ts\<rparr>,
               if sound_enabled (soundConfig st1) \<and> audioContext st1 \<and> audioNodes st1 \<noteq> None
               then [PlayCollisionSound] else [])
            else (Colliding, 1.0, st1, []))
      else if surfaceDist < collisionThresholdYellow st then
        (Approaching,
         max 0 (min 1 (1.0 - (surfaceDist - collisionThresholdRed st)
                               / (collisionThresholdYellow st - collisionThresholdRed st))),
         st, [])
      else (NoCollision, 0, st, []))"

text \<open>Collision is evaluated for session \<open>'1'\<close> only; elsewhere the state stays \<open>none\<close>.\<close>

definition collision_section ::
  "vec3 \<Rightarrow> real \<Rightarrow> Store \<Rightarrow> (CollisionState \<times> real \<times> Store \<times> GeneratorCall list) option" where
  "collision_section proposedPos ts st =
     (if currentSessionId st = ''1'' then
        (case getPlanet1Distance proposedPos (uniforms st) (accumulatedTime st) of
           None \<Rightarrow> None
         | Some surfaceDist \<Rightarrow> Some (collision_branch surfaceDist ts st))
      else Some (NoCollision, 0, st, []))"

text \<open>The position is committed unless the frame collides; state and proximity are published.\<close>

definition commit_position :: "CollisionState \<Rightarrow> vec3 \<Rightarrow> Store \<Rightarrow> Store" where
  "commit_position newState proposedPos st =
     (if newState \<noteq> Colliding then st\<lparr>camera := (camera st)\<lparr>position := proposedPos\<rparr>\<rparr> else st)"

definition publish_collision :: "CollisionState \<Rightarrow> real \<Rightarrow> Store \<Rightarrow> Store" where
  "publish_collision newState newProximity st =
     (let st1 = (if collisionState st \<noteq> newState then st\<lparr>collisionState := newState\<rparr> else st)
      in if \<bar>newProximity - collisionProximity st1\<bar> > 0.02 \<or> newProximity = 0 \<or> newProximity = 1.0
         then st1\<lparr>collisionProximity := newProximity\<rparr> else st1)"

text \<open>
  Rotation, roll and the moving flag. \<open>rot\<close> is the rotation read at the start of the
  frame. The speed is that of the velocity left by the collision branch.
\<close>

definition currentSpeed :: "Store \<Rightarrow> real" where
  "currentSpeed st =
     (case cameraVelocity st of (vx, vy, vz) \<Rightarrow> sqrt (vx * vx + vy * vy + vz * vz))"

definition rotation_section :: "real \<times> real \<Rightarrow> real \<Rightarrow> Store \<Rightarrow> Store" where
  "rotation_section rot dt st =
     (let controls = controlConfig st;
          keys = keysPressed st;
          pitchInput = axis keys ''arrowdown'' ''arrowup'' (invertPitch controls);
          yawInput = axis keys ''arrowright'' ''arrowleft'' (invertYaw controls);
          rotSpd = 1.0;
          tRotX = pitchInput * rotSpd * js_nullish (pitchVelocity controls) 0.3;
          tRotY = yawInput * rotSpd * js_nullish (yawVelocity controls) 0.3;
          av0 = fst (cameraAngularVelocity st) + (tRotX - fst (cameraAngularVelocity st)) * 0.07;
          av1 = snd (cameraAngularVelocity st) + (tRotY - snd (cameraAngularVelocity st)) * 0.07;
          st1 = st\<lparr>cameraAngularVelocity := (av0, av1)\<rparr>;
          st2 = st1\<lparr>camera := (camera st1)
                  \<lparr>rotation := (max (- 1.57) (min 1.57 (fst rot + av0 * dt)), snd rot + av1 * dt)\<rparr>\<rparr>;
          st3 = st2\<lparr>isMoving := (currentSpeed st2 > 0.0001)\<rparr>;
          roll1 = cameraRoll st3
                    + (- yawInput * js_nullish (yawVelocity controls) 0.3 * 0.75 * 0.4 - cameraRoll st3) * 0.1;
          st4 = st3\<lparr>cameraRoll := roll1\<rparr>;
          st5 = st4\<lparr>camera := (camera st4)\<lparr>roll := roll1\<rparr>\<rparr>
      in st5\<lparr>renderCamera := camera st5\<rparr>)"

definition physics_section ::
  "real \<Rightarrow> real \<Rightarrow> Store \<Rightarrow> (Store \<times> GeneratorCall list) option" where
  "physics_section ts dt st =
     (let rot = rotation (camera st);
          currentPos = position (camera st);
          tV = target_velocity (controlConfig st) (keysPressed st) rot;
          st1 = st\<lparr>cameraVelocity := smooth3 0.1 tV (cameraVelocity st)\<rparr>;
          proposedPos = proposed_position currentPos (cameraVelocity st1) dt
      in case collision_section proposedPos ts st1 of
           None \<Rightarrow> None
         | Some (newState, newProximity, st2, calls) \<Rightarrow>
             Some (rotation_section rot dt
                     (publish_collision newState newProximity
                        (commit_position newState proposedPos st2)),
                   calls))"

subsection \<open>Telemetry\<close>

text \<open>\<open>(yaw % (Math.PI * 2)) / (Math.PI * 2)\<close>.\<close>

definition heading_of :: "real \<Rightarrow> real" where
  "heading_of yaw = js_rem yaw (pi * 2) / (pi * 2)"

text \<open>
  The telemetry record, rewritten in full every frame. On a frame with \<open>dt = 0\<close> the
  quotient of the acceleration is not a finite number in JavaScript; the model has 0.
\<close>

definition telemetry_section :: "real \<Rightarrow> real \<Rightarrow> Store \<Rightarrow> Store" where
  "telemetry_section ts dt st =
     (let now = ts / 1000.0;
          speed = currentSpeed st;
          acceleration = (speed - previousSpeed st) / dt;
          st1 = st\<lparr>previousSpeed := speed\<rparr>
      in st1\<lparr>audioInputs := (\<lambda>src. case src of
             SrcSpeed \<Rightarrow> speed
           | SrcAcceleration \<Rightarrow> acceleration * 0.1
           | SrcAltitude \<Rightarrow> fst (snd (position (camera st1))) - fst (snd INITIAL_CAMERA_POS)
           | SrcDescent \<Rightarrow> - fst (snd (cameraVelocity st1)) * 2.0
           | SrcTurning \<Rightarrow> \<bar>snd (cameraAngularVelocity st1)\<bar>
           | SrcTurningSigned \<Rightarrow> snd (cameraAngularVelocity st1)
           | SrcHeading \<Rightarrow> heading_of (snd (rotation (camera st1)))
           | SrcPitch \<Rightarrow> - fst (rotation (camera st1)) / 1.57
           | SrcProximity \<Rightarrow> collisionProximity st1
           | SrcTime \<Rightarrow> now)\<rparr>)"

subsection \<open>Audio update and scheduling\<close>

text \<open>The routed tempo, speed, octaves and density, clamped for the sequencer.\<close>

definition live_state :: "(ModulationTarget \<Rightarrow> real) \<Rightarrow> LiveAudioState" where
  "live_state acc =
     \<lparr> rhythmBpm = max 30 (min 300 (acc RhythmBpm)),
       arpSpeed = max 0.1 (min 5.0 (acc ArpSpeed)),
       arpOctaves = max 1 (min 5 (acc ArpOctaves)),
       melodyDensity = max 0.0 (min 1.0 (acc MelodyDensity)) \<rparr>"

definition LOOKAHEAD :: real where
  "LOOKAHEAD = 0.1"

text \<open>The three intervals added to the next-event times.\<close>

definition melody_interval :: "LiveAudioState \<Rightarrow> real \<Rightarrow> real" where
  "melody_interval live rnd = (60 / rhythmBpm live) * (rnd * 4 + 4)"

definition arp_interval :: "LiveAudioState \<Rightarrow> real" where
  "arp_interval live = (60 / rhythmBpm live) / (arpSpeed live * 4)"

definition rhythm_interval :: "LiveAudioState \<Rightarrow> real" where
  "rhythm_interval live = 60 / rhythmBpm live"

text \<open>
  playArpNote, as far as the store is concerned: nothing happens without a context, a
  graph with an arpeggio bus and the arpeggio enabled; otherwise the index advances.
\<close>

definition playArpNote :: "real \<Rightarrow> Store \<Rightarrow> Store" where
  "playArpNote rnd st =
     (if \<not> audioContext st \<or> audioNodes st = None \<or> \<not> nodes_arp (the (audioNodes st))
         \<or> \<not> arp_enabled (arp (soundConfig st))
      then st
      else
        (let r = arp_advance (effective_direction (soundConfig st) (audioTargetAccumulators st))
                   (totalNotes (soundConfig st) (liveAudioState st)) rnd
                   (arpNoteIndex st, arpInternalDirection st)
         in st\<lparr>arpNoteIndex := fst r, arpInternalDirection := snd r\<rparr>))"

definition schedule_melody :: "FrameInput \<Rightarrow> Store \<Rightarrow> Store \<times> GeneratorCall list" where
  "schedule_melody inp st =
     (if melody_enabled (melody (soundConfig st)) \<and> audioNow inp \<ge> nextMelodyTime st - LOOKAHEAD then
        (let playTime = max (audioNow inp) (nextMelodyTime st);
             calls = (if rndMelodyDraw inp < melodyDensity (liveAudioState st)
                      then [PlayGenerativeNote playTime] else [])
         in (st\<lparr>nextMelodyTime :=
                   nextMelodyTime st + melody_interval (liveAudioState st) (rndMelodyInterval inp)\<rparr>,
             calls))
      else (st, []))"

definition schedule_arp :: "FrameInput \<Rightarrow> Store \<Rightarrow> Store \<times> GeneratorCall list" where
  "schedule_arp inp st =
     (if arp_enabled (arp (soundConfig st)) \<and> audioNow inp \<ge> nextArpTime st - LOOKAHEAD then
        (let playTime = max (audioNow inp) (nextArpTime st);
             st1 = playArpNote (rndArp inp) st
         in (st1\<lparr>nextArpTime := nextArpTime st1 + arp_interval (liveAudioState st1)\<rparr>,
             [PlayArpNote playTime]))
      else (st, []))"

definition schedule_rhythm :: "FrameInput \<Rightarrow> Store \<Rightarrow> Store \<times> GeneratorCall list" where
  "schedule_rhythm inp st =
     (if rhythm_enabled (rhythm (soundConfig st)) \<and> audioNow inp \<ge> nextRhythmTime st - LOOKAHEAD then
        (let playTime = max (audioNow inp) (nextRhythmTime st)
         in (st\<lparr>nextRhythmTime := nextRhythmTime st + rhythm_interval (liveAudioState st)\<rparr>,
             [PlayRhythm playTime]))
      else (st, []))"

definition schedule :: "FrameInput \<Rightarrow> Store \<Rightarrow> Store \<times> GeneratorCall list" where
  "schedule inp st =
     (let (st1, c1) = schedule_melody inp st;
          (st2, c2) = schedule_arp inp st1;
          (st3, c3) = schedule_rhythm inp st2
      in (st3, c1 @ c2 @ c3))"

text \<open>
  The audio block runs for session \<open>'1'\<close> with a context, a graph and sound enabled. The
  smoothed parameter ramps on the graph's nodes leave the store unchanged.
\<close>

definition audio_section :: "FrameInput \<Rightarrow> Store \<Rightarrow> Store \<times> GeneratorCall list" where
  "audio_section inp st =
     (if currentSessionId st = ''1'' \<and> audioContext st \<and> audioNodes st \<noteq> None
         \<and> sound_enabled (soundConfig st)
      then
        (let st1 = st\<lparr>audioTargetAccumulators := route (soundConfig st) (audioInputs st)\<rparr>;
             st2 = st1\<lparr>liveAudioState := live_state (audioTargetAccumulators st1)\<rparr>
         in schedule inp st2)
      else (st, []))"

definition gameLoop :: "FrameInput \<Rightarrow> Store \<Rightarrow> (Store \<times> GeneratorCall list) option" where
  "gameLoop inp st =
     (let dt = frame_dt (timestamp inp) st;
          st1 = st\<lparr>lastTime := timestamp inp, accumulatedTime := accumulatedTime st + dt\<rparr>
      in case physics_section (timestamp inp) dt st1 of
           None \<Rightarrow> None
         | Some (st2, calls) \<Rightarrow>
             (let (st3, calls') = audio_section inp (telemetry_section (timestamp inp) dt st2)
              in Some (st3, calls @ calls')))"

section \<open>Session snapshots (getSessionState, applySessionState)\<close>

text \<open>
  A session file is JSON: every field may be absent. The records below are the loaded
  shape of the sound configuration and of the session, with \<open>None\<close> for an absent field.
\<close>

record ReverbJson =
  j_reverb_enabled :: "bool option"
  j_reverb_mix :: "real option"
  j_reverb_decay :: "real option"
  j_reverb_tone :: "real option"

record DroneJson =
  j_drone_enabled :: "bool option"
  j_drone_gain :: "real option"
  j_drone_filter :: "real option"
  j_drone_pitch :: "real option"

record AtmosphereJson =
  j_atmosphere_enabled :: "bool option"
  j_atmosphere_gain :: "real option"
  j_atmosphere_texture :: "Texture option"

record MelodyJson =
  j_melody_enabled :: "bool option"
  j_melody_gain :: "real option"
  j_melody_density :: "real option"
  j_melody_scale :: "ScaleName option"

record ArpJson =
  j_arp_enabled :: "bool option"
  j_arp_gain :: "real option"
  j_arp_speed :: "real option"
  j_arp_octaves :: "real option"
  j_arp_filter :: "real option"
  j_arp_direction :: "Direction option"

record RhythmJson =
  j_rhythm_enabled :: "bool option"
  j_rhythm_gain :: "real option"
  j_rhythm_bpm :: "real option"
  j_rhythm_filter :: "real option"

record SoundConfigJson =
  j_sound_enabled :: "bool option"
  j_masterVolume :: "real option"
  j_reverb :: "ReverbJson option"
  j_drone :: "DroneJson option"
  j_atmosphere :: "AtmosphereJson option"
  j_melody :: "MelodyJson option"
  j_arp :: "ArpJson option"
  j_rhythm :: "RhythmJson option"
  j_modulations :: "Modulation list option"

record SessionState =
  j_sessionId :: "string option"
  j_shaderCode :: "string option"
  j_uniforms :: "(string \<rightharpoonup> real) option"
  j_cameraControlsEnabled :: "bool option"
  j_controlConfig :: "ControlConfig option"
  j_soundConfig :: "SoundConfigJson option"
  j_canvasSize :: "string option"
  j_viewMode :: "ViewMode option"
  j_isHdEnabled :: "bool option"
  j_isFpsEnabled :: "bool option"
  j_isHudEnabled :: "bool option"
  j_collisionThresholdRed :: "real option"
  j_collisionThresholdYellow :: "real option"

text \<open>The spread \<open>{ ...defaults, ...(loaded || {}) }\<close> of each instrument's configuration.\<close>

definition merge_reverb :: "ReverbConfig \<Rightarrow> ReverbJson option \<Rightarrow> ReverbConfig" where
  "merge_reverb d l =
     (case l of None \<Rightarrow> d
      | Some j \<Rightarrow> \<lparr> reverb_enabled = js_nullish (j_reverb_enabled j) (reverb_enabled d),
                    reverb_mix = js_nullish (j_reverb_mix j) (reverb_mix d),
                    reverb_decay = js_nullish (j_reverb_decay j) (reverb_decay d),
                    reverb_tone = js_nullish (j_reverb_tone j) (reverb_tone d) \<rparr>)"

definition merge_drone :: "DroneConfig \<Rightarrow> DroneJson option \<Rightarrow> DroneConfig" where
  "merge_drone d l =
     (case l of None \<Rightarrow> d
      | Some j \<Rightarrow> \<lparr> drone_enabled = js_nullish (j_drone_enabled j) (drone_enabled d),
                    drone_gain = js_nullish (j_drone_gain j) (drone_gain d),
                    drone_filter = js_nullish (j_drone_filter j) (drone_filter d),
                    drone_pitch = js_nullish (j_drone_pitch j) (drone_pitch d) \<rparr>)"

definition merge_atmosphere :: "AtmosphereConfig \<Rightarrow> AtmosphereJson option \<Rightarrow> AtmosphereConfig" where
  "merge_atmosphere d l =
     (case l of None \<Rightarrow> d
      | Some j \<Rightarrow> \<lparr> atmosphere_enabled = js_nullish (j_atmosphere_enabled j) (atmosphere_enabled d),
                    atmosphere_gain = js_nullish (j_atmosphere_gain j) (atmosphere_gain d),
                    atmosphere_texture = js_nullish (j_atmosphere_texture j) (atmosphere_texture d) \<rparr>)"

definition merge_melody :: "MelodyConfig \<Rightarrow> MelodyJson option \<Rightarrow> MelodyConfig" where
  "merge_melody d l =
     (case l of None \<Rightarrow> d
      | Some j \<Rightarrow> \<lparr> melody_enabled = js_nullish (j_melody_enabled j) (melody_enabled d),
                    melody_gain = js_nullish (j_melody_gain j) (melody_gain d),
                    melody_density = js_nullish (j_melody_density j) (melody_density d),
                    melody_scale = js_nullish (j_melody_scale j) (melody_scale d) \<rparr>)"

definition merge_arp :: "ArpConfig \<Rightarrow> ArpJson option \<Rightarrow> ArpConfig" where
  "merge_arp d l =
     (case l of None \<Rightarrow> d
      | Some j \<Rightarrow> \<lparr> arp_enabled = js_nullish (j_arp_enabled j) (arp_enabled d),
                    arp_gain = js_nullish (j_arp_gain j) (arp_gain d),
                    arp_speed = js_nullish (j_arp_speed j) (arp_speed d),
                    arp_octaves = js_nullish (j_arp_octaves j) (arp_octaves d),
                    arp_filter = js_nullish (j_arp_filter j) (arp_filter d),
                    arp_direction = (case j_arp_direction j of None \<Rightarrow> arp_direction d
                                     | Some x \<Rightarrow> Some x) \<rparr>)"

definition merge_rhythm :: "RhythmConfig \<Rightarrow> RhythmJson option \<Rightarrow> RhythmConfig" where
  "merge_rhythm d l =
     (case l of None \<Rightarrow> d
      | Some j \<Rightarrow> \<lparr> rhythm_enabled = js_nullish (j_rhythm_enabled j) (rhythm_enabled d),
                    rhythm_gain = js_nullish (j_rhythm_gain j) (rhythm_gain d),
                    rhythm_bpm = js_nullish (j_rhythm_bpm j) (rhythm_bpm d),
                    rhythm_filter = js_nullish (j_rhythm_filter j) (rhythm_filter d) \<rparr>)"

text \<open>
  \<open>mergedSoundConfig\<close>: the defaults, overridden by the loaded top-level fields, with each
  instrument merged field by field and
  \<open>modulations: loadedSoundConfig?.modulations || defaultSoundConfig.modulations\<close>
  (an array, even an empty one, is truthy).
\<close>

definition mergedSoundConfig :: "SoundConfigJson option \<Rightarrow> SoundConfig" where
  "mergedSoundConfig loaded =
     \<lparr> sound_enabled =
         js_nullish (Option.bind loaded j_sound_enabled) (sound_enabled defaultSoundConfig),
       masterVolume =
         js_nullish (Option.bind loaded j_masterVolume) (masterVolume defaultSoundConfig),
       reverb = merge_reverb (reverb defaultSoundConfig) (Option.bind loaded j_reverb),
       drone = merge_drone (drone defaultSoundConfig) (Option.bind loaded j_drone),
       atmosphere = merge_atmosphere (atmosphere defaultSoundConfig) (Option.bind loaded j_atmosphere),
       melody = merge_melody (melody defaultSoundConfig) (Option.bind loaded j_melody),
       arp = merge_arp (arp defaultSoundConfig) (Option.bind loaded j_arp),
       rhythm = merge_rhythm (rhythm defaultSoundConfig) (Option.bind loaded j_rhythm),
       modulations =
         (case Option.bind loaded j_modulations of
            None \<Rightarrow> modulations defaultSoundConfig
          | Some ms \<Rightarrow> ms) \<rparr>"

definition emptyControlConfig :: ControlConfig where
  "emptyControlConfig =
     \<lparr> invertStrafe = None, invertForward = None, invertAscend = None, invertPitch = None,
       invertYaw = None, forwardVelocity = None, strafeVelocity = None, ascendVelocity = None,
       pitchVelocity = None, yawVelocity = None \<rparr>"

definition cleanupAudio :: "Store \<Rightarrow> Store" where
  "cleanupAudio st = st\<lparr>audioContext := False, audioNodes := None\<rparr>"

definition applySessionState :: "SessionState \<Rightarrow> Store \<Rightarrow> Store" where
  "applySessionState sessionState st0 =
     (let st = cleanupAudio st0;
          initialCamera = \<lparr>position = INITIAL_CAMERA_POS, rotation = INITIAL_CAMERA_ROT, roll = 0\<rparr>
      in st\<lparr> currentSessionId := js_nullish (j_sessionId sessionState) ''local-file'',
              activeShaderCode := js_nullish (j_shaderCode sessionState) [],
              cameraControlsEnabled := js_nullish (j_cameraControlsEnabled sessionState) False,
              controlConfig := js_nullish (j_controlConfig sessionState) emptyControlConfig,
              soundConfig := mergedSoundConfig (j_soundConfig sessionState),
              uniforms := js_nullish (j_uniforms sessionState) Map.empty,
              canvasSize := js_nullish (j_canvasSize sessionState) defaultCanvasSize,
              viewMode := js_nullish (j_viewMode sessionState) Chase,
              isHdEnabled := js_nullish (j_isHdEnabled sessionState) False,
              isFpsEnabled := js_nullish (j_isFpsEnabled sessionState) False,
              isHudEnabled := js_nullish (j_isHudEnabled sessionState) True,
              collisionThresholdRed := js_nullish (j_collisionThresholdRed sessionState) 0.002,
              collisionThresholdYellow := js_nullish (j_collisionThresholdYellow sessionState) 0.02,
              camera := initialCamera,
              renderCamera := initialCamera,
              collisionState := NoCollision,
              collisionProximity := 0,
              previousSpeed := 0 \<rparr>)"

text \<open>The snapshot written on save: every field of the current state is present.\<close>

definition soundConfig_json :: "SoundConfig \<Rightarrow> SoundConfigJson" where
  "soundConfig_json c =
     \<lparr> j_sound_enabled = Some (sound_enabled c),
       j_masterVolume = Some (masterVolume c),
       j_reverb = Some \<lparr> j_reverb_enabled = Some (reverb_enabled (reverb c)),
                         j_reverb_mix = Some (reverb_mix (reverb c)),
                         j_reverb_decay = Some (reverb_decay (reverb c)),
                         j_reverb_tone = Some (reverb_tone (reverb c)) \<rparr>,
       j_drone = Some \<lparr> j_drone_enabled = Some (drone_enabled (drone c)),
                        j_drone_gain = Some (drone_gain (drone c)),
                        j_drone_filter = Some (drone_filter (drone c)),
                        j_drone_pitch = Some (drone_pitch (drone c)) \<rparr>,
       j_atmosphere = Some \<lparr> j_atmosphere_enabled = Some (atmosphere_enabled (atmosphere c)),
                             j_atmosphere_gain = Some (atmosphere_gain (atmosphere c)),
                             j_atmosphere_texture = Some (atmosphere_texture (atmosphere c)) \<rparr>,
       j_melody = Some \<lparr> j_melody_enabled = Some (melody_enabled (melody c)),
                         j_melody_gain = Some (melody_gain (melody c)),
                         j_melody_density = Some (melody_density (melody c)),
                         j_melody_scale = Some (melody_scale (melody c)) \<rparr>,
       j_arp = Some \<lparr> j_arp_enabled = Some (arp_enabled (arp c)),
                      j_arp_gain = Some (arp_gain (arp c)),
                      j_arp_speed = Some (arp_speed (arp c)),
                      j_arp_octaves = Some (arp_octaves (arp c)),
                      j_arp_filter = Some (arp_filter (arp c)),
                      j_arp_direction = arp_direction (arp c) \<rparr>,
       j_rhythm = Some \<lparr> j_rhythm_enabled = Some (rhythm_enabled (rhythm c)),
                         j_rhythm_gain = Some (rhythm_gain (rhythm c)),
                         j_rhythm_bpm = Some (rhythm_bpm (rhythm c)),
                         j_rhythm_filter = Some (rhythm_filter (rhythm c)) \<rparr>,
       j_modulations = Some (modulations c) \<rparr>"

definition getSessionState :: "Store \<Rightarrow> SessionState" where
  "getSessionState st =
     \<lparr> j_sessionId = Some (currentSessionId st),
       j_shaderCode = Some (activeShaderCode st),
       j_uniforms = Some (uniforms st),
       j_cameraControlsEnabled = Some (cameraControlsEnabled st),
       j_controlConfig = Some (controlConfig st),
       j_soundConfig = Some (soundConfig_json (soundConfig st)),
       j_canvasSize = Some (canvasSize st),
       j_viewMode = Some (viewMode st),
       j_isHdEnabled = Some (isHdEnabled st),
       j_isFpsEnabled = Some (isFpsEnabled st),
       j_isHudEnabled = Some (isHudEnabled st),
       j_collisionThresholdRed = Some (collisionThresholdRed st),
       j_collisionThresholdYellow = Some (collisionThresholdYellow st) \<rparr>"

section \<open>Initial state and audio start-up\<close>

text \<open>The initial values of the store's state and refs.\<close>

definition initialStore :: Store where
  "initialStore =
     \<lparr> currentSessionId = ''1'',
       activeShaderCode = [],
       cameraControlsEnabled = False,
       controlConfig = emptyControlConfig,
       soundConfig = defaultSoundConfig,
       uniforms = Map.empty,
       canvasSize = defaultCanvasSize,
       viewMode = Chase,
       isHdEnabled = False,
       isFpsEnabled = False,
       isHudEnabled = True,
       collisionThresholdRed = 0.002,
       collisionThresholdYellow = 0.02,
       keysPressed = {},
       lastTime = 0,
       accumulatedTime = 0,
       camera = \<lparr>position = INITIAL_CAMERA_POS, rotation = INITIAL_CAMERA_ROT, roll = 0\<rparr>,
       renderCamera = \<lparr>position = INITIAL_CAMERA_POS, rotation = INITIAL_CAMERA_ROT, roll = 0\<rparr>,
       cameraVelocity = (0, 0, 0),
       cameraAngularVelocity = (0, 0),
       cameraRoll = 0,
       isMoving = False,
       collisionState = NoCollision,
       collisionProximity = 0,
       collisionCooldown = 0,
       previousSpeed = 0,
       audioInputs = (\<lambda>_. 0),
       audioTargetAccumulators = (\<lambda>_. 0),
       audioContext = False,
       audioNodes = None,
       liveAudioState =
         \<lparr> rhythmBpm = rhythm_bpm (rhythm defaultSoundConfig),
           arpSpeed = arp_speed (arp defaultSoundConfig),
           arpOctaves = arp_octaves (arp defaultSoundConfig),
           melodyDensity = melody_density (melody defaultSoundConfig) \<rparr>,
       nextMelodyTime = 0,
       nextArpTime = 0,
       nextRhythmTime = 0,
       arpNoteIndex = 0,
       arpInternalDirection = 1 \<rparr>"

text \<open>
  initAudio on a host that has an audio context class: the graph gets a bus for every
  instrument enabled at that moment, the sequencer state is read from the configuration
  and the three clocks are set from the audio time \<open>now\<close>.
\<close>

definition initAudio :: "real \<Rightarrow> Store \<Rightarrow> Store" where
  "initAudio now st =
     (if audioContext st then st
      else
        (let cfg = soundConfig st
         in st\<lparr> audioContext := True,
                 liveAudioState :=
                   \<lparr> rhythmBpm = rhythm_bpm (rhythm cfg),
                     arpSpeed = arp_speed (arp cfg),
                     arpOctaves = arp_octaves (arp cfg),
                     melodyDensity = melody_density (melody cfg) \<rparr>,
                 audioNodes :=
                   Some \<lparr> nodes_reverb = reverb_enabled (reverb cfg),
                          nodes_drone = drone_enabled (drone cfg),
                          nodes_atmosphere = atmosphere_enabled (atmosphere cfg),
                          nodes_arp = arp_enabled (arp cfg),
                          nodes_rhythm = rhythm_enabled (rhythm cfg) \<rparr>,
                 nextMelodyTime := now + 2,
                 nextArpTime := now + 0.5,
                 nextRhythmTime := now + 0.1 \<rparr>))"

section \<open>Notions used by the properties\<close>

text \<open>The position a frame proposes, and the distance the collision test gets there.\<close>

definition proposedPos_of :: "FrameInput \<Rightarrow> Store \<Rightarrow> vec3" where
  "proposedPos_of inp st =
     proposed_position (position (camera st))
       (smooth3 0.1 (target_velocity (controlConfig st) (keysPressed st) (rotation (camera st)))
          (cameraVelocity st))
       (frame_dt (timestamp inp) st)"

definition distance_of :: "FrameInput \<Rightarrow> Store \<Rightarrow> real option" where
  "distance_of inp st =
     getPlanet1Distance (proposedPos_of inp st) (uniforms st)
       (accumulatedTime st + frame_dt (timestamp inp) st)"

text \<open>The frame's classification: the new state and proximity of the collision branch.\<close>

definition classify :: "real \<Rightarrow> real \<Rightarrow> Store \<Rightarrow> CollisionState \<times> real" where
  "classify d ts st = (fst (collision_branch d ts st), fst (snd (collision_branch d ts st)))"

text \<open>The store after \<open>n\<close> successive arpeggio notes; \<open>rnds k\<close> is the random draw of note \<open>k\<close>.\<close>

fun arp_events :: "(nat \<Rightarrow> real) \<Rightarrow> nat \<Rightarrow> Store \<Rightarrow> Store" where
  "arp_events rnds 0 st = st"
| "arp_events rnds (Suc n) st = playArpNote (rnds n) (arp_events rnds n st)"

text \<open>The ping-pong pattern over eight notes: 0, 1, ..., 7, 6, ..., 1, 0, 1, ...\<close>

definition pingpong8 :: "nat \<Rightarrow> int" where
  "pingpong8 k = (let r = k mod 14 in if r \<le> 7 then int r else 14 - int r)"

text \<open>The internal direction that goes with the pattern: up on the way to 7, down on the way back.\<close>

definition updown_flag :: "nat \<Rightarrow> int" where
  "updown_flag k = (if k mod 14 < 7 then 1 else - 1)"

text \<open>The call time of a generator call (the collision sound takes none).\<close>

fun call_time :: "GeneratorCall \<Rightarrow> real option" where
  "call_time PlayCollisionSound = None"
| "call_time (PlayGenerativeNote t) = Some t"
| "call_time (PlayArpNote t) = Some t"
| "call_time (PlayRhythm t) = Some t"

section \<open>Example states\<close>

text \<open>
  A camera 0.09 above a point inside the red zone, moving towards it, in a session whose
  rotation slider is 0; the frame comes 100 ms after the previous one.
\<close>

definition veto_store :: Store where
  "veto_store =
     initialStore
       \<lparr> uniforms := [''slider_fractalRotation'' \<mapsto> 0],
         lastTime := 1000,
         camera := \<lparr>position = (9 / 10, 64 / 25, - (363 / 50)), rotation = INITIAL_CAMERA_ROT, roll = 0\<rparr>,
         cameraVelocity := (0, 1, 0) \<rparr>"

definition veto_input :: FrameInput where
  "veto_input =
     \<lparr>timestamp = 1100, audioNow = 0, rndMelodyDraw = 0, rndMelodyInterval = 0, rndArp = 0\<rparr>"

text \<open>
  The initial store 16 ms after a first frame, with the left-arrow key held.
\<close>

definition turning_store :: Store where
  "turning_store = initialStore\<lparr>keysPressed := {''arrowleft''}, lastTime := 1000\<rparr>"

definition turning_input :: FrameInput where
  "turning_input =
     \<lparr>timestamp = 1016, audioNow = 0, rndMelodyDraw = 0, rndMelodyInterval = 0, rndArp = 0\<rparr>"

text \<open>A one-octave Dorian arpeggio without modulations, audio started at time 0.\<close>

definition arp_store :: Store where
  "arp_store =
     initAudio 0
       (initialStore
          \<lparr>soundConfig := defaultSoundConfig
             \<lparr>arp := (arp defaultSoundConfig)\<lparr>arp_octaves := 1\<rparr>, modulations := []\<rparr>\<rparr>)"

text \<open>The default configuration with audio started at time 0, and a frame at audio time 2.\<close>

definition playing_store :: Store where
  "playing_store = initAudio 0 initialStore"

definition frame_at_2 :: FrameInput where
  "frame_at_2 =
     \<lparr>timestamp = 2000, audioNow = 2, rndMelodyDraw = 0.9, rndMelodyInterval = 0.5, rndArp = 0\<rparr>"






text \<open>
  A session file with no field at all, and one whose sound configuration has two
  top-level fields and nothing else.
\<close>

definition empty_session :: SessionState where
  "empty_session =
     \<lparr> j_sessionId = None, j_shaderCode = None, j_uniforms = None,
       j_cameraControlsEnabled = None, j_controlConfig = None, j_soundConfig = None,
       j_canvasSize = None, j_viewMode = None, j_isHdEnabled = None, j_isFpsEnabled = None,
       j_isHudEnabled = None, j_collisionThresholdRed = None, j_collisionThresholdYellow = None \<rparr>"

definition bare_sound :: SoundConfigJson where
  "bare_sound =
     \<lparr> j_sound_enabled = Some True, j_masterVolume = Some 0.8, j_reverb = None, j_drone = None,
       j_atmosphere = None, j_melody = None, j_arp = None, j_rhythm = None,
       j_modulations = None \<rparr>"

definition bare_sound_session :: SessionState where
  "bare_sound_session = empty_session\<lparr>j_soundConfig := Some bare_sound\<rparr>"

section \<open>What the parts of a frame leave unchanged\<close>

lemma playArpNote_keeps:
  "camera (playArpNote rnd st) = camera st"
  "cameraVelocity (playArpNote rnd st) = cameraVelocity st"
  "collisionState (playArpNote rnd st) = collisionState st"
  "collisionProximity (playArpNote rnd st) = collisionProximity st"
  "audioContext (playArpNote rnd st) = audioContext st"
  "audioNodes (playArpNote rnd st) = audioNodes st"
  "soundConfig (playArpNote rnd st) = soundConfig st"
  "liveAudioState (playArpNote rnd st) = liveAudioState st"
  "audioTargetAccumulators (playArpNote rnd st) = audioTargetAccumulators st"
  "nextMelodyTime (playArpNote rnd st) = nextMelodyTime st"
  "nextArpTime (playArpNote rnd st) = nextArpTime st"
  "nextRhythmTime (playArpNote rnd st) = nextRhythmTime st"
  "audioInputs (playArpNote rnd st) = audioInputs st"
  by (simp_all add: playArpNote_def Let_def)

lemma schedule_keeps:
  "camera (fst (schedule inp st)) = camera st"
  "cameraVelocity (fst (schedule inp st)) = cameraVelocity st"
  "collisionState (fst (schedule inp st)) = collisionState st"
  "collisionProximity (fst (schedule inp st)) = collisionProximity st"
  "liveAudioState (fst (schedule inp st)) = liveAudioState st"
  "audioTargetAccumulators (fst (schedule inp st)) = audioTargetAccumulators st"
  "audioInputs (fst (schedule inp st)) = audioInputs st"
  by (simp_all add: schedule_def schedule_melody_def schedule_arp_def schedule_rhythm_def
      playArpNote_keeps Let_def split_beta)

lemma rotation_section_keeps:
  "position (camera (rotation_section rot dt st)) = position (camera st)"
  "cameraVelocity (rotation_section rot dt st) = cameraVelocity st"
  "collisionState (rotation_section rot dt st) = collisionState st"
  "collisionProximity (rotation_section rot dt st) = collisionProximity st"
  by (simp_all add: rotation_section_def Let_def)

lemma telemetry_section_keeps:
  "camera (telemetry_section ts dt st) = camera st"
  "cameraVelocity (telemetry_section ts dt st) = cameraVelocity st"
  "collisionState (telemetry_section ts dt st) = collisionState st"
  "collisionProximity (telemetry_section ts dt st) = collisionProximity st"
  by (simp_all add: telemetry_section_def Let_def)

lemma audio_section_keeps:
  "camera (fst (audio_section inp st)) = camera st"
  "cameraVelocity (fst (audio_section inp st)) = cameraVelocity st"
  "collisionState (fst (audio_section inp st)) = collisionState st"
  "collisionProximity (fst (audio_section inp st)) = collisionProximity st"
  "audioInputs (fst (audio_section inp st)) = audioInputs st"
  by (simp_all add: audio_section_def schedule_keeps Let_def)

lemma publish_collision_keeps:
  "camera (publish_collision s p st) = camera st"
  "cameraVelocity (publish_collision s p st) = cameraVelocity st"
  "collisionState (publish_collision s p st) = s"
  by (simp_all add: publish_collision_def Let_def)

lemma publish_collision_one:
  "collisionProximity (publish_collision s 1 st) = 1"
  by (simp add: publish_collision_def Let_def)

section \<open>Router: reference definition and order independence\<close>

lemma js_or_zero [simp]: "js_or x 0 = x"
  by (simp add: js_or_def)

lemma MOD_RANGES_nonzero [simp]: "js_or (MOD_RANGES t) d = MOD_RANGES t"
  by (cases t) (simp_all add: js_or_def)



lemma base_values_modulations [simp]:
  "base_values (sound\<lparr>modulations := ms\<rparr>) = base_values sound"
proof
  fix t
  show "base_values (sound\<lparr>modulations := ms\<rparr>) t = base_values sound t"
    by (cases t) simp_all
qed












section \<open>Collision: classification and veto\<close>

lemma classify_cases:
  "classify d ts st =
     (if d < collisionThresholdRed st then (Colliding, 1)
      else if d < collisionThresholdYellow st then
        (Approaching, max 0 (min 1 (1 - (d - collisionThresholdRed st)
                                        / (collisionThresholdYellow st - collisionThresholdRed st))))
      else (NoCollision, 0))"
  by (simp add: classify_def collision_branch_def Let_def)

lemma proximity_mono:
  assumes ry: "collisionThresholdRed st < collisionThresholdYellow st" and le: "d \<le> d'"
  shows "snd (classify d' ts st) \<le> snd (classify d ts st)"
proof -
  let ?r = "collisionThresholdRed st" and ?y = "collisionThresholdYellow st"
  have pos: "0 < ?y - ?r" using ry by simp
  have "(d - ?r) / (?y - ?r) \<le> (d' - ?r) / (?y - ?r)"
    using le pos by (simp add: divide_right_mono)
  then show ?thesis
    using le ry by (auto simp: classify_cases)
qed

text \<open>
  Claim C2 (collision classification and proximity). With thresholds red < yellow, a
  distance below red is classified colliding with proximity exactly 1; a distance from
  red up to (not including) yellow is classified approaching with proximity
  1 - (d - red) / (yellow - red), clamped to [0, 1] (the clamp changes nothing there);
  any other distance is classified none with proximity 0. Hence the proximity lies in
  [0, 1], never increases as the distance grows, is exactly 1 at or under red and
  exactly 0 at or over yellow.
\<close>

theorem C2_classification:
  assumes ry: "collisionThresholdRed st < collisionThresholdYellow st"
  shows "(d < collisionThresholdRed st \<longrightarrow> classify d ts st = (Colliding, 1))
    \<and> (collisionThresholdRed st \<le> d \<and> d < collisionThresholdYellow st \<longrightarrow>
          classify d ts st =
            (Approaching,
             max 0 (min 1 (1 - (d - collisionThresholdRed st)
                                / (collisionThresholdYellow st - collisionThresholdRed st))))
          \<and> snd (classify d ts st)
              = 1 - (d - collisionThresholdRed st)
                    / (collisionThresholdYellow st - collisionThresholdRed st))
    \<and> (collisionThresholdYellow st \<le> d \<longrightarrow> classify d ts st = (NoCollision, 0))
    \<and> 0 \<le> snd (classify d ts st) \<and> snd (classify d ts st) \<le> 1
    \<and> (d \<le> d' \<longrightarrow> snd (classify d' ts st) \<le> snd (classify d ts st))
    \<and> (d \<le> collisionThresholdRed st \<longrightarrow> snd (classify d ts st) = 1)
    \<and> (collisionThresholdYellow st \<le> d \<longrightarrow> snd (classify d ts st) = 0)"
proof -
  let ?r = "collisionThresholdRed st" and ?y = "collisionThresholdYellow st"
  have pos: "0 < ?y - ?r" using ry by simp
  have lin: "snd (classify d ts st) = 1 - (d - ?r) / (?y - ?r)" if "?r \<le> d" "d < ?y"
  proof -
    have "0 \<le> (d - ?r) / (?y - ?r)" using that pos by simp
    moreover have "(d - ?r) / (?y - ?r) \<le> 1" using that pos by simp
    ultimately show ?thesis using that by (simp add: classify_cases)
  qed
  have mono: "snd (classify d' ts st) \<le> snd (classify d ts st)" if "d \<le> d'"
    using proximity_mono [OF ry that] .
  have at_red: "snd (classify d ts st) = 1" if "d \<le> ?r"
    using that ry by (cases "d < ?r") (simp_all add: classify_cases)
  show ?thesis
    using ry lin mono at_red by (auto simp: classify_cases)
qed

text \<open>
  C2 at the default thresholds 0.002 and 0.02: distances 0.001, 0.011 (proximity one
  half) and 0.1, the two threshold values themselves, and the pair 0.011 \<le> 0.015.
\<close>

theorem C2_classification_witness:
  "collisionThresholdRed initialStore < collisionThresholdYellow initialStore
   \<and> classify (1 / 1000) 0 initialStore = (Colliding, 1)
   \<and> classify (11 / 1000) 0 initialStore = (Approaching, 1 / 2)
   \<and> classify (1 / 10) 0 initialStore = (NoCollision, 0)
   \<and> snd (classify (15 / 1000) 0 initialStore) \<le> snd (classify (11 / 1000) 0 initialStore)
   \<and> snd (classify (2 / 1000) 0 initialStore) = 1
   \<and> snd (classify (2 / 100) 0 initialStore) = 0"
proof -
  have ry: "collisionThresholdRed initialStore < collisionThresholdYellow initialStore"
    by (simp add: initialStore_def)
  have th: "collisionThresholdRed initialStore = 2 / 1000"
    "collisionThresholdYellow initialStore = 2 / 100"
    by (simp_all add: initialStore_def)
  note t = C2_classification [OF ry]
  have 1: "classify (1 / 1000) 0 initialStore = (Colliding, 1)"
    using t [of "1 / 1000" 0 0] by (simp add: th)
  have 2: "classify (11 / 1000) 0 initialStore = (Approaching, 1 / 2)"
    using t [of "11 / 1000" 0 0] by (simp add: th)
  have 3: "classify (1 / 10) 0 initialStore = (NoCollision, 0)"
    using t [of "1 / 10" 0 0] by (simp add: th)
  have 4: "snd (classify (15 / 1000) 0 initialStore) \<le> snd (classify (11 / 1000) 0 initialStore)"
    using t [of "11 / 1000" 0 "15 / 1000"] by simp
  have 5: "snd (classify (2 / 1000) 0 initialStore) = 1"
    using t [of "2 / 1000" 0 0] by (simp add: th)
  have 6: "snd (classify (2 / 100) 0 initialStore) = 0"
    using t [of "2 / 100" 0 0] by (simp add: th)
  from ry 1 2 3 4 5 6 show ?thesis by (intro conjI)
qed

lemma collision_branch_red:
  assumes "d < collisionThresholdRed st"
  shows "fst (collision_branch d ts st) = Colliding"
    and "fst (snd (collision_branch d ts st)) = 1"
    and "cameraVelocity (fst (snd (snd (collision_branch d ts st)))) = (0, 0, 0)"
    and "camera (fst (snd (snd (collision_branch d ts st)))) = camera st"
  using assms by (simp_all add: collision_branch_def Let_def)

text \<open>
  Claim C1 (collision veto). In a frame of the collidable session (session '1') whose
  distance function, evaluated at the proposed position, returns a value below the red
  threshold, the frame completes, the camera position at the end of the frame is the
  position at its start (the displacement is not applied, not even in part), all three
  components of the camera velocity are exactly zero after the collision branch and
  still at the end of the frame, and the frame is published as colliding with
  proximity 1.
\<close>

theorem C1_collision_veto:
  assumes session: "currentSessionId st = ''1''"
    and surface: "distance_of inp st = Some d"
    and red: "d < collisionThresholdRed st"
  shows "\<exists>st' calls. gameLoop inp st = Some (st', calls)
           \<and> position (camera st') = position (camera st)
           \<and> cameraVelocity st' = (0, 0, 0)
           \<and> collisionState st' = Colliding
           \<and> collisionProximity st' = 1"
proof -
  define dt where "dt = frame_dt (timestamp inp) st"
  define st0 where "st0 = st\<lparr>lastTime := timestamp inp, accumulatedTime := accumulatedTime st + dt\<rparr>"
  define st1 where "st1 = st0\<lparr>cameraVelocity :=
      smooth3 0.1 (target_velocity (controlConfig st0) (keysPressed st0) (rotation (camera st0)))
        (cameraVelocity st0)\<rparr>"
  define pp where "pp = proposed_position (position (camera st0)) (cameraVelocity st1) dt"
  have pp: "pp = proposedPos_of inp st"
    by (simp add: pp_def st1_def st0_def proposedPos_of_def dt_def)
  have d: "getPlanet1Distance pp (uniforms st1) (accumulatedTime st1) = Some d"
    using surface by (simp add: pp distance_of_def st1_def st0_def dt_def)
  have red1: "d < collisionThresholdRed st1"
    using red by (simp add: st1_def st0_def)
  obtain ns np st2 calls where cb: "collision_branch d (timestamp inp) st1 = (ns, np, st2, calls)"
    by (metis prod_cases4)
  from collision_branch_red [OF red1, of "timestamp inp"] cb
  have ns: "ns = Colliding" and np: "np = 1" and v2: "cameraVelocity st2 = (0, 0, 0)"
    and c2: "camera st2 = camera st1"
    by simp_all
  have s1: "currentSessionId st1 = ''1''"
    using session by (simp add: st1_def st0_def)
  have cs: "collision_section pp (timestamp inp) st1 = Some (ns, np, st2, calls)"
    by (simp add: collision_section_def s1 d cb)
  define st3 where "st3 = rotation_section (rotation (camera st0)) dt
      (publish_collision ns np (commit_position ns pp st2))"
  have ph: "physics_section (timestamp inp) dt st0 = Some (st3, calls)"
    unfolding physics_section_def Let_def st1_def [symmetric] pp_def [symmetric] cs st3_def
    by simp
  define res where "res = audio_section inp (telemetry_section (timestamp inp) dt st3)"
  have gl: "gameLoop inp st = Some (fst res, calls @ snd res)"
    unfolding gameLoop_def Let_def dt_def [symmetric] st0_def [symmetric] ph res_def
    by (simp add: split_beta)
  have cam0: "camera st1 = camera st" by (simp add: st1_def st0_def)
  have p3: "position (camera st3) = position (camera st)"
    by (simp add: st3_def rotation_section_keeps publish_collision_keeps commit_position_def ns c2 cam0)
  have v3: "cameraVelocity st3 = (0, 0, 0)"
    by (simp add: st3_def rotation_section_keeps publish_collision_keeps commit_position_def ns v2)
  have s3: "collisionState st3 = Colliding"
    by (simp add: st3_def rotation_section_keeps publish_collision_keeps ns)
  have x3: "collisionProximity st3 = 1"
    by (simp add: st3_def rotation_section_keeps np publish_collision_one)
  have "position (camera (fst res)) = position (camera st)"
    "cameraVelocity (fst res) = (0, 0, 0)"
    "collisionState (fst res) = Colliding"
    "collisionProximity (fst res) = 1"
    by (simp_all add: res_def audio_section_keeps telemetry_section_keeps p3 v3 s3 x3)
  with gl show ?thesis by blast
qed

subsection \<open>A colliding frame, evaluated\<close>

text \<open>On a positive modulus the folded remainder is the mathematical one.\<close>

lemma glsl_mod_pos:
  assumes "0 < y"
  shows "glsl_mod v y = v - y * of_int \<lfloor>v / y\<rfloor>"
proof -
  define k where "k = js_trunc (v / y)"
  have q: "(js_rem v y + y) / y = v / y - of_int k + 1"
    using assms by (simp add: js_rem_def k_def field_simps)
  have nonneg: "0 \<le> v / y - of_int k + 1"
  proof (cases "0 \<le> v / y")
    case True
    then have "k = \<lfloor>v / y\<rfloor>" by (simp add: k_def js_trunc_def)
    then show ?thesis by linarith
  next
    case False
    then have "k = \<lceil>v / y\<rceil>" by (simp add: k_def js_trunc_def)
    then show ?thesis by linarith
  qed
  have "js_trunc ((js_rem v y + y) / y) = \<lfloor>v / y - of_int k + 1\<rfloor>"
    using nonneg by (simp add: q js_trunc_def)
  also have "\<dots> = \<lfloor>v / y\<rfloor> - k + 1"
    by linarith
  finally have t: "js_trunc ((js_rem v y + y) / y) = \<lfloor>v / y\<rfloor> - k + 1" .
  have "glsl_mod v y = (js_rem v y + y) - y * of_int (\<lfloor>v / y\<rfloor> - k + 1)"
    by (simp only: glsl_mod_def js_rem_def [of "js_rem v y + y" y] t)
  also have "\<dots> = v - y * of_int \<lfloor>v / y\<rfloor>"
    by (simp add: js_rem_def k_def algebra_simps)
  finally show ?thesis .
qed

text \<open>The loop body without rotation and pulse.\<close>

lemma fold_plain:
  "0 < i \<Longrightarrow> planet1_fold 0 0 t i ((q0, q1, q2), d) =
     (let n0 = i * 0.9 - \<bar>q0 - (i + i) * of_int \<lfloor>q0 / (i + i)\<rfloor> - i\<bar>;
          n1 = i * 0.9 - \<bar>q1 - (i + i) * of_int \<lfloor>q1 / (i + i)\<rfloor> - i\<bar>;
          n2 = i * 0.9 - \<bar>q2 - (i + i) * of_int \<lfloor>q2 / (i + i)\<rfloor> - i\<bar>
      in ((n0, n1, n2), max d (min n0 (min n1 n2))))"
  by (simp add: planet1_fold_def glsl_mod_pos Let_def)

text \<open>
  The eight passes of the loop at the point (0.9, 2.65, -7.26) with the default scale
  0.37: the cell size goes 58, 21.46, ... and falls to 0.0204 after the eighth pass.
\<close>

lemma fold_step1:
  "planet1_fold 0 0 t 58 ((9 / 10, 53 / 20, - (363 / 50)), - (53 / 20)) = ((- (49 / 10), - (63 / 20), 73 / 50), - (53 / 20))"
  by (simp add: fold_plain Let_def)

lemma fold_step2:
  "planet1_fold 0 0 t (1073 / 50) ((- (49 / 10), - (63 / 20), 73 / 50), - (53 / 20)) = ((1377 / 500, 251 / 250, - (343 / 500)), - (343 / 500))"
  by (simp add: fold_plain Let_def)

lemma fold_step3:
  "planet1_fold 0 0 t (39701 / 5000) ((1377 / 500, 251 / 250, - (343 / 500)), - (343 / 500)) = ((97999 / 50000, 10499 / 50000, - (5401 / 50000)), - (5401 / 50000))"
  by (simp add: fold_plain Let_def)

lemma fold_step4:
  "planet1_fold 0 0 t (1468937 / 500000) ((97999 / 50000, 10499 / 50000, - (5401 / 50000)), - (5401 / 50000)) = ((8330963 / 5000000, - (419037 / 5000000), - (928837 / 5000000)), - (5401 / 50000))"
  by (simp add: fold_plain Let_def)

lemma fold_step5:
  "planet1_fold 0 0 t (54350669 / 50000000) ((8330963 / 5000000, - (419037 / 5000000), - (928837 / 5000000)), - (5401 / 50000)) = ((199566411 / 500000000, - (12446969 / 500000000), 38533031 / 500000000), - (12446969 / 500000000))"
  by (simp add: fold_plain Let_def)

lemma fold_step6:
  "planet1_fold 0 0 t (2010974753 / 5000000000) ((199566411 / 500000000, - (12446969 / 500000000), 38533031 / 500000000), - (12446969 / 500000000)) = ((17945666347 / 50000000000, - (766277853 / 50000000000), 1842328347 / 50000000000), - (766277853 / 50000000000))"
  by (simp add: fold_plain Let_def)

lemma fold_step7:
  "planet1_fold 0 0 t (74406065861 / 500000000000) ((17945666347 / 50000000000, - (766277853 / 50000000000), 1842328347 / 50000000000), - (766277853 / 50000000000)) = ((232039251619 / 5000000000000, 2221719439 / 5000000000000, 109826768839 / 5000000000000), 2221719439 / 5000000000000)"
  by (simp add: fold_plain Let_def)

lemma fold_step8:
  "planet1_fold 0 0 t (2753024436857 / 50000000000000) ((232039251619 / 5000000000000, 2221719439 / 5000000000000, 109826768839 / 5000000000000), 2221719439 / 5000000000000) = ((20450900725043 / 500000000000000, - (2530852492957 / 500000000000000), 8229652447043 / 500000000000000), 2221719439 / 5000000000000)"
  by (simp add: fold_plain Let_def)
lemma planet1_loop_at_point:
  "planet1_loop (37 / 100) 0 0 t 58 ((9 / 10, 53 / 20, - (363 / 50)), - (53 / 20))
     = Some (2221719439 / 5000000000000)"
  apply (subst planet1_loop.simps, simp add: fold_step1)
  apply (subst planet1_loop.simps, simp add: fold_step2)
  apply (subst planet1_loop.simps, simp add: fold_step3)
  apply (subst planet1_loop.simps, simp add: fold_step4)
  apply (subst planet1_loop.simps, simp add: fold_step5)
  apply (subst planet1_loop.simps, simp add: fold_step6)
  apply (subst planet1_loop.simps, simp add: fold_step7)
  apply (subst planet1_loop.simps, simp add: fold_step8)
  apply (subst planet1_loop.simps, simp)
  done

lemma veto_store_fields:
  "currentSessionId veto_store = ''1''"
  "collisionThresholdRed veto_store = 2 / 1000"
  "position (camera veto_store) = (9 / 10, 64 / 25, - (363 / 50))"
  "uniforms veto_store = [''slider_fractalRotation'' \<mapsto> 0]"
  "accumulatedTime veto_store = 0"
  by (simp_all add: veto_store_def initialStore_def)

lemma veto_dt: "frame_dt (timestamp veto_input) veto_store = 1 / 10"
  by (simp add: frame_dt_def veto_input_def veto_store_def initialStore_def)

lemma veto_proposed: "proposedPos_of veto_input veto_store = (9 / 10, 53 / 20, - (363 / 50))"
  by (simp add: proposedPos_of_def veto_dt)
     (simp add: veto_store_def initialStore_def target_velocity_def axis_def smooth3_def
        proposed_position_def emptyControlConfig_def js_nullish_def INITIAL_CAMERA_ROT_def)

lemma veto_distance:
  "distance_of veto_input veto_store = Some (2221719439 / 5000000000000)"
  by (simp add: distance_of_def veto_proposed veto_dt veto_store_fields getPlanet1Distance_def
      js_nullish_def planet1_loop_at_point)

text \<open>
  C1 at a concrete frame: the camera at (0.9, 2.56, -7.26) moves with velocity (0, 1, 0),
  no key is held and the frame lasts 0.1 s, so the proposed position is
  (0.9, 2.65, -7.26); the distance there is about 0.00044, under the red threshold 0.002.
  The frame leaves the camera where it was and the velocity at zero.
\<close>

theorem C1_collision_veto_witness:
  "currentSessionId veto_store = ''1''
   \<and> proposedPos_of veto_input veto_store = (9 / 10, 53 / 20, - (363 / 50))
   \<and> distance_of veto_input veto_store = Some (2221719439 / 5000000000000)
   \<and> (2221719439 / 5000000000000 :: real) < collisionThresholdRed veto_store
   \<and> (\<exists>st' calls. gameLoop veto_input veto_store = Some (st', calls)
         \<and> position (camera st') = (9 / 10, 64 / 25, - (363 / 50))
         \<and> cameraVelocity st' = (0, 0, 0)
         \<and> collisionState st' = Colliding
         \<and> collisionProximity st' = 1)"
proof -
  have red: "(2221719439 / 5000000000000 :: real) < collisionThresholdRed veto_store"
    by (simp add: veto_store_fields)
  from C1_collision_veto [OF veto_store_fields(1) veto_distance red]
  show ?thesis
    using red by (simp add: veto_store_fields veto_proposed veto_distance)
qed

section \<open>Arpeggio: the ping-pong sequence\<close>

lemma arp_advance_updown8:
  "arp_advance UpDown 8 rnd (pingpong8 n, updown_flag n) = (pingpong8 (Suc n), updown_flag (Suc n))"
proof -
  define r where "r = n mod 14"
  have r: "r < 14" by (simp add: r_def)
  have s: "Suc n mod 14 = (if r = 13 then 0 else Suc r)"
    by (simp add: mod_Suc r_def)
  show ?thesis
    unfolding arp_advance_def pingpong8_def updown_flag_def Let_def s r_def [symmetric]
    using r by (auto simp: Let_def)
qed

lemma pingpong8_range: "0 \<le> pingpong8 n" "pingpong8 n \<le> 7"
proof -
  have "n mod 14 < 14" by simp
  then show "0 \<le> pingpong8 n" "pingpong8 n \<le> 7"
    by (auto simp: pingpong8_def Let_def)
qed

lemma arp_events_config:
  "audioContext (arp_events rnds n st) = audioContext st"
  "audioNodes (arp_events rnds n st) = audioNodes st"
  "soundConfig (arp_events rnds n st) = soundConfig st"
  "liveAudioState (arp_events rnds n st) = liveAudioState st"
  "audioTargetAccumulators (arp_events rnds n st) = audioTargetAccumulators st"
  by (induction n) (simp_all add: playArpNote_keeps)

lemma effective_direction_updown:
  assumes "arp_direction (arp cfg) = None \<or> arp_direction (arp cfg) = Some UpDown"
    and "- 0.3 \<le> acc ArpDirection" "acc ArpDirection \<le> 0.3"
  shows "effective_direction cfg acc = UpDown"
  using assms by (auto simp: effective_direction_def Let_def)

lemma arp_events_state:
  assumes ready: "audioContext st" "audioNodes st = Some nodes" "nodes_arp nodes"
      "arp_enabled (arp (soundConfig st))"
    and dir: "effective_direction (soundConfig st) (audioTargetAccumulators st) = UpDown"
    and total: "totalNotes (soundConfig st) (liveAudioState st) = 8"
    and start: "arpNoteIndex st = 0" "arpInternalDirection st = 1"
  shows "arpNoteIndex (arp_events rnds n st) = pingpong8 n
       \<and> arpInternalDirection (arp_events rnds n st) = updown_flag n"
proof (induction n)
  case 0
  then show ?case using start by (simp add: pingpong8_def updown_flag_def)
next
  case (Suc n)
  let ?s = "arp_events rnds n st"
  have "playArpNote (rnds n) ?s =
      ?s\<lparr>arpNoteIndex := pingpong8 (Suc n), arpInternalDirection := updown_flag (Suc n)\<rparr>"
    using ready dir total Suc
    by (simp add: playArpNote_def arp_events_config arp_advance_updown8)
  then show ?case by simp
qed

text \<open>
  Claim C4 (arpeggio updown sequence), as the code has it. With the index at 0, the
  internal direction up, the effective direction updown (configured or defaulted, the
  routed direction offset within 0.3 either way) and eight notes in total, the index is
  advanced before the note is played: the note events fire the indices
  1, 2, ..., 7, 6, ..., 1, 0, 1, ..., the \<open>k\<close>-th event (counting from 1) firing position
  \<open>k\<close> of the pattern 0, 1, ..., 7, 6, ..., 1, 0, 1, ... that starts at position 0. Every
  fired index lies in [0, 7]; the internal direction differs from the one before the
  event exactly when the fired index is 0 or 7, and it is down after 7 and up after 0.
\<close>

theorem C4_updown_sequence:
  assumes ready: "audioContext st" "audioNodes st = Some nodes" "nodes_arp nodes"
      "arp_enabled (arp (soundConfig st))"
    and cfg: "arp_direction (arp (soundConfig st)) = None
              \<or> arp_direction (arp (soundConfig st)) = Some UpDown"
    and dirMod: "- 0.3 \<le> audioTargetAccumulators st ArpDirection"
      "audioTargetAccumulators st ArpDirection \<le> 0.3"
    and total: "totalNotes (soundConfig st) (liveAudioState st) = 8"
    and start: "arpNoteIndex st = 0" "arpInternalDirection st = 1"
  shows "arpNoteIndex (arp_events rnds (Suc k) st) = pingpong8 (Suc k)
       \<and> 0 \<le> arpNoteIndex (arp_events rnds (Suc k) st)
       \<and> arpNoteIndex (arp_events rnds (Suc k) st) \<le> 7
       \<and> (arpInternalDirection (arp_events rnds (Suc k) st)
            \<noteq> arpInternalDirection (arp_events rnds k st)
          \<longleftrightarrow> arpNoteIndex (arp_events rnds (Suc k) st) = 0
              \<or> arpNoteIndex (arp_events rnds (Suc k) st) = 7)
       \<and> (arpNoteIndex (arp_events rnds (Suc k) st) = 7
            \<longrightarrow> arpInternalDirection (arp_events rnds (Suc k) st) = - 1)
       \<and> (arpNoteIndex (arp_events rnds (Suc k) st) = 0
            \<longrightarrow> arpInternalDirection (arp_events rnds (Suc k) st) = 1)"
proof -
  have dir: "effective_direction (soundConfig st) (audioTargetAccumulators st) = UpDown"
    using cfg dirMod by (rule effective_direction_updown)
  note st = arp_events_state [OF ready dir total start, of rnds]
  define r where "r = k mod 14"
  have r: "r < 14" by (simp add: r_def)
  have s: "Suc k mod 14 = (if r = 13 then 0 else Suc r)"
    by (simp add: mod_Suc r_def)
  have flip: "updown_flag (Suc k) \<noteq> updown_flag k
      \<longleftrightarrow> pingpong8 (Suc k) = 0 \<or> pingpong8 (Suc k) = 7"
    unfolding pingpong8_def updown_flag_def Let_def s r_def [symmetric]
    using r by auto
  have top: "pingpong8 (Suc k) = 7 \<longrightarrow> updown_flag (Suc k) = - 1"
    unfolding pingpong8_def updown_flag_def Let_def s r_def [symmetric]
    using r by auto
  have bot: "pingpong8 (Suc k) = 0 \<longrightarrow> updown_flag (Suc k) = 1"
    unfolding pingpong8_def updown_flag_def Let_def s r_def [symmetric]
    using r by auto
  show ?thesis
    unfolding st [of "Suc k", THEN conjunct1] st [of "Suc k", THEN conjunct2]
      st [of k, THEN conjunct2]
    using flip top bot pingpong8_range [of "Suc k"] by blast
qed

lemma arp_store_fields:
  "audioContext arp_store"
  "audioNodes arp_store = Some \<lparr>nodes_reverb = True, nodes_drone = True, nodes_atmosphere = True,
      nodes_arp = True, nodes_rhythm = True\<rparr>"
  "arp_enabled (arp (soundConfig arp_store))"
  "arp_direction (arp (soundConfig arp_store)) = Some UpDown"
  "audioTargetAccumulators arp_store ArpDirection = 0"
  "melody_scale (melody (soundConfig arp_store)) = Dorian"
  "arpOctaves (liveAudioState arp_store) = 1"
  "arpNoteIndex arp_store = 0"
  "arpInternalDirection arp_store = 1"
  by (simp_all add: arp_store_def initAudio_def initialStore_def Let_def defaultSoundConfig_def)

lemma arp_store_total: "totalNotes (soundConfig arp_store) (liveAudioState arp_store) = 8"
  by (simp add: totalNotes_def arp_store_fields js_round_def)

text \<open>
  C4 on the one-octave Dorian arpeggio: the first event fires index 1, the seventh
  fires 7 and turns the direction down, the eighth fires 6, the fourteenth fires 0 and
  turns the direction up.
\<close>

theorem C4_updown_sequence_witness:
  "arpNoteIndex arp_store = 0 \<and> arpInternalDirection arp_store = 1
   \<and> totalNotes (soundConfig arp_store) (liveAudioState arp_store) = 8
   \<and> arpNoteIndex (arp_events (\<lambda>_. 0) (Suc 0) arp_store) = 1
   \<and> arpNoteIndex (arp_events (\<lambda>_. 0) (Suc 6) arp_store) = 7
   \<and> arpInternalDirection (arp_events (\<lambda>_. 0) (Suc 6) arp_store) = - 1
   \<and> arpNoteIndex (arp_events (\<lambda>_. 0) (Suc 7) arp_store) = 6
   \<and> arpNoteIndex (arp_events (\<lambda>_. 0) (Suc 13) arp_store) = 0
   \<and> arpInternalDirection (arp_events (\<lambda>_. 0) (Suc 13) arp_store) = 1"
proof -
  have n: "nodes_arp \<lparr>nodes_reverb = True, nodes_drone = True, nodes_atmosphere = True,
      nodes_arp = True, nodes_rhythm = True\<rparr>" by simp
  have c: "arp_direction (arp (soundConfig arp_store)) = None
      \<or> arp_direction (arp (soundConfig arp_store)) = Some UpDown"
    by (simp add: arp_store_fields)
  have d: "- 0.3 \<le> audioTargetAccumulators arp_store ArpDirection"
    "audioTargetAccumulators arp_store ArpDirection \<le> 0.3"
    by (simp_all add: arp_store_fields)
  note t = C4_updown_sequence [OF arp_store_fields(1) arp_store_fields(2) n arp_store_fields(3)
      c d arp_store_total arp_store_fields(8) arp_store_fields(9), of "\<lambda>_. 0"]
  have p: "pingpong8 (Suc 0) = 1" "pingpong8 7 = 7" "pingpong8 8 = 6" "pingpong8 14 = 0"
    by (simp_all add: pingpong8_def)
  from t [of 0] t [of 6] t [of 7] t [of 13]
  show ?thesis
    by (simp add: p arp_store_fields arp_store_total)
qed

text \<open>
  The sequence does not start with index 0: from index 0, direction up, updown and eight
  notes, the first note event fires index 1.
\<close>

theorem C4_first_note_counterexample:
  "arpNoteIndex arp_store = 0 \<and> arpInternalDirection arp_store = 1
   \<and> totalNotes (soundConfig arp_store) (liveAudioState arp_store) = 8
   \<and> effective_direction (soundConfig arp_store) (audioTargetAccumulators arp_store) = UpDown
   \<and> arpNoteIndex (arp_events (\<lambda>_. 0) (Suc 0) arp_store) = 1
   \<and> arpNoteIndex (arp_events (\<lambda>_. 0) (Suc 0) arp_store) \<noteq> 0"
proof -
  have e: "effective_direction (soundConfig arp_store) (audioTargetAccumulators arp_store) = UpDown"
    by (simp add: effective_direction_def arp_store_fields)
  have "arpNoteIndex (playArpNote 0 arp_store) = 1"
    by (simp add: playArpNote_def arp_store_fields arp_store_total e arp_advance_def)
  then show ?thesis
    by (simp add: arp_store_fields arp_store_total e)
qed

section \<open>Telemetry: heading\<close>

lemma heading_small_negative:
  assumes "- (2 * pi) < yaw" "yaw \<le> 0"
  shows "heading_of yaw = yaw / (2 * pi)"
proof -
  have p: "0 < 2 * pi" by simp
  have q: "- 1 < yaw / (2 * pi)" "yaw / (2 * pi) \<le> 0"
    using assms p by (simp_all add: field_simps)
  have "js_trunc (yaw / (2 * pi)) = 0"
  proof (cases "yaw = 0")
    case True
    then show ?thesis by (simp add: js_trunc_def)
  next
    case False
    with q have "yaw / (2 * pi) < 0" using assms p by (simp add: field_simps)
    moreover have "\<lceil>yaw / (2 * pi)\<rceil> = 0" using q by linarith
    ultimately show ?thesis by (simp add: js_trunc_def)
  qed
  then show ?thesis
    by (simp add: heading_of_def js_rem_def mult.commute)
qed

text \<open>For a yaw that is not negative the heading is the wrapped yaw and lies in [0, 1).\<close>

lemma heading_nonneg_yaw:
  assumes "0 \<le> yaw"
  shows "0 \<le> heading_of yaw" and "heading_of yaw < 1"
proof -
  have t: "js_trunc (yaw / (pi * 2)) = \<lfloor>yaw / (pi * 2)\<rfloor>"
    using assms by (simp add: js_trunc_def)
  have eq: "heading_of yaw = yaw / (pi * 2) - of_int \<lfloor>yaw / (pi * 2)\<rfloor>"
    by (simp add: heading_of_def js_rem_def t diff_divide_distrib)
  show "0 \<le> heading_of yaw" unfolding eq by linarith
  show "heading_of yaw < 1" unfolding eq by linarith
qed

text \<open>With the default scale the loop of the distance function ends after eight passes.\<close>

lemma planet1_loop_default_scale:
  "\<exists>d. planet1_loop (37 / 100) rot pulse t 58 qd = Some d"
  apply (subst planet1_loop.simps, simp)
  apply (subst planet1_loop.simps, simp)
  apply (subst planet1_loop.simps, simp)
  apply (subst planet1_loop.simps, simp)
  apply (subst planet1_loop.simps, simp)
  apply (subst planet1_loop.simps, simp)
  apply (subst planet1_loop.simps, simp)
  apply (subst planet1_loop.simps, simp)
  apply (subst planet1_loop.simps, simp)
  done

lemma collision_branch_keeps:
  "keysPressed (fst (snd (snd (collision_branch d ts st)))) = keysPressed st"
  "controlConfig (fst (snd (snd (collision_branch d ts st)))) = controlConfig st"
  "cameraAngularVelocity (fst (snd (snd (collision_branch d ts st)))) = cameraAngularVelocity st"
  "rotation (camera (fst (snd (snd (collision_branch d ts st))))) = rotation (camera st)"
  by (simp_all add: collision_branch_def Let_def)

lemma yaw_after_rotation:
  "snd (rotation (camera (rotation_section rot dt st))) =
     snd rot + (snd (cameraAngularVelocity st)
        + (axis (keysPressed st) ''arrowright'' ''arrowleft'' (invertYaw (controlConfig st)) * 1.0
             * js_nullish (yawVelocity (controlConfig st)) 0.3
           - snd (cameraAngularVelocity st)) * 0.07) * dt"
  by (simp add: rotation_section_def Let_def)

lemma heading_after_telemetry:
  "audioInputs (telemetry_section ts dt st) SrcHeading = heading_of (snd (rotation (camera st)))"
  by (simp add: telemetry_section_def Let_def)

text \<open>
  One frame of 16 ms with the left-arrow key held, from the initial camera: the yaw goes
  from 0 to -0.021 * 0.016, and the heading telemetry is computed from that yaw.
\<close>

lemma turning_frame:
  "\<exists>st' calls. gameLoop turning_input turning_store = Some (st', calls)
     \<and> snd (rotation (camera st')) = - (21 / 1000) * (16 / 1000)
     \<and> audioInputs st' SrcHeading = heading_of (- (21 / 1000) * (16 / 1000))"
proof -
  define dt where "dt = frame_dt (timestamp turning_input) turning_store"
  have dt: "dt = 16 / 1000"
    by (simp add: dt_def frame_dt_def turning_input_def turning_store_def initialStore_def)
  define st0 where "st0 = turning_store\<lparr>lastTime := timestamp turning_input,
      accumulatedTime := accumulatedTime turning_store + dt\<rparr>"
  define st1 where "st1 = st0\<lparr>cameraVelocity :=
      smooth3 0.1 (target_velocity (controlConfig st0) (keysPressed st0) (rotation (camera st0)))
        (cameraVelocity st0)\<rparr>"
  define pp where "pp = proposed_position (position (camera st0)) (cameraVelocity st1) dt"
  have f1: "currentSessionId st1 = ''1''" "uniforms st1 = Map.empty"
    "keysPressed st1 = {''arrowleft''}" "controlConfig st1 = emptyControlConfig"
    "cameraAngularVelocity st1 = (0, 0)" "rotation (camera st1) = (1 / 10, 0)"
    "rotation (camera st0) = (1 / 10, 0)"
    by (simp_all add: st1_def st0_def turning_store_def initialStore_def INITIAL_CAMERA_ROT_def)
  have "getPlanet1Distance pp Map.empty (accumulatedTime st1)
      = planet1_loop (37 / 100) (109 / 100) 0 (accumulatedTime st1) 58 (pp, - fst (snd pp))"
    by (simp add: getPlanet1Distance_def js_nullish_def)
  then obtain d where d: "getPlanet1Distance pp (uniforms st1) (accumulatedTime st1) = Some d"
    using planet1_loop_default_scale [of "109 / 100" 0 "accumulatedTime st1" "(pp, - fst (snd pp))"]
    by (auto simp: f1)
  obtain ns np st2 calls where cb:
    "collision_branch d (timestamp turning_input) st1 = (ns, np, st2, calls)"
    by (metis prod_cases4)
  have cs: "collision_section pp (timestamp turning_input) st1 = Some (ns, np, st2, calls)"
    by (simp add: collision_section_def f1(1) d cb)
  from collision_branch_keeps [of d "timestamp turning_input" st1] cb
  have f2: "keysPressed st2 = {''arrowleft''}" "controlConfig st2 = emptyControlConfig"
    "cameraAngularVelocity st2 = (0, 0)" "rotation (camera st2) = (1 / 10, 0)"
    by (simp_all add: f1)
  define st2' where "st2' = publish_collision ns np (commit_position ns pp st2)"
  have f3: "keysPressed st2' = {''arrowleft''}" "controlConfig st2' = emptyControlConfig"
    "cameraAngularVelocity st2' = (0, 0)"
    by (simp_all add: st2'_def publish_collision_def commit_position_def Let_def f2)
  define st3 where "st3 = rotation_section (rotation (camera st0)) dt st2'"
  have ph: "physics_section (timestamp turning_input) dt st0 = Some (st3, calls)"
    unfolding physics_section_def Let_def st1_def [symmetric] pp_def [symmetric] cs st3_def st2'_def
    by simp
  have yaw: "snd (rotation (camera st3)) = - (21 / 1000) * (16 / 1000)"
    unfolding st3_def yaw_after_rotation f1 f3
    by (simp add: axis_def emptyControlConfig_def js_nullish_def dt)
  define res where "res = audio_section turning_input
      (telemetry_section (timestamp turning_input) dt st3)"
  have gl: "gameLoop turning_input turning_store = Some (fst res, calls @ snd res)"
    unfolding gameLoop_def Let_def dt_def [symmetric] st0_def [symmetric] ph res_def
    by (simp add: split_beta)
  have "snd (rotation (camera (fst res))) = - (21 / 1000) * (16 / 1000)"
    by (simp add: res_def audio_section_keeps telemetry_section_def Let_def yaw)
  moreover have "audioInputs (fst res) SrcHeading = heading_of (- (21 / 1000) * (16 / 1000))"
    by (simp only: res_def audio_section_keeps heading_after_telemetry yaw)
  ultimately show ?thesis using gl by blast
qed

text \<open>
  Claim C5 (heading telemetry range) does not hold on the code. The claim: for every
  camera yaw, negative ones included, the heading telemetry is the yaw wrapped into
  [0, 2 pi) divided by 2 pi, so it lies in [0, 1). The code takes the remainder with
  \<open>%\<close>, whose sign follows the yaw: at yaw -1 the heading is -1 / (2 pi), a negative
  number; and one 16 ms frame with the left-arrow key held, from the initial camera,
  already leaves a negative yaw and a negative heading in the telemetry record.
\<close>

theorem C5_heading_negative:
  "heading_of (- 1) = - (1 / (2 * pi)) \<and> heading_of (- 1) < 0
   \<and> (\<exists>st' calls. gameLoop turning_input turning_store = Some (st', calls)
         \<and> snd (rotation (camera st')) < 0
         \<and> audioInputs st' SrcHeading < 0)"
proof -
  have "- (2 * pi) < - 1" using pi_ge_two by simp
  then have a: "heading_of (- 1) = - 1 / (2 * pi)"
    by (intro heading_small_negative) simp_all
  have b: "0 < 1 / (2 * pi)" by simp
  define y :: real where "y = - (21 / 1000) * (16 / 1000)"
  have y: "y < 0" "- (2 * pi) < y" using pi_ge_two by (simp_all add: y_def)
  then have "heading_of y = y / (2 * pi)"
    by (intro heading_small_negative) simp_all
  moreover have "y / (2 * pi) < 0"
    using y(1) by (simp add: divide_neg_pos)
  ultimately have c: "heading_of (- (21 / 1000) * (16 / 1000)) < 0"
    by (simp add: y_def)
  obtain st' calls where g: "gameLoop turning_input turning_store = Some (st', calls)"
    "snd (rotation (camera st')) = - (21 / 1000) * (16 / 1000)"
    "audioInputs st' SrcHeading = heading_of (- (21 / 1000) * (16 / 1000))"
    using turning_frame by blast
  have "snd (rotation (camera st')) < 0" "audioInputs st' SrcHeading < 0"
    using g c by simp_all
  with g(1) a b show ?thesis by auto
qed

section \<open>Scheduler: lookahead, play times and intervals\<close>

lemma schedule_melody_calls:
  "snd (schedule_melody inp st) =
     (if melody_enabled (melody (soundConfig st)) \<and> nextMelodyTime st - LOOKAHEAD \<le> audioNow inp
         \<and> rndMelodyDraw inp < melodyDensity (liveAudioState st)
      then [PlayGenerativeNote (max (audioNow inp) (nextMelodyTime st))] else [])"
  by (simp add: schedule_melody_def Let_def)

lemma schedule_melody_keeps:
  "soundConfig (fst (schedule_melody inp st)) = soundConfig st"
  "nextArpTime (fst (schedule_melody inp st)) = nextArpTime st"
  "nextRhythmTime (fst (schedule_melody inp st)) = nextRhythmTime st"
  "liveAudioState (fst (schedule_melody inp st)) = liveAudioState st"
  "nextMelodyTime (fst (schedule_melody inp st)) =
     (if melody_enabled (melody (soundConfig st)) \<and> nextMelodyTime st - LOOKAHEAD \<le> audioNow inp
      then nextMelodyTime st + melody_interval (liveAudioState st) (rndMelodyInterval inp)
      else nextMelodyTime st)"
  by (simp_all add: schedule_melody_def Let_def)

lemma schedule_arp_calls:
  "snd (schedule_arp inp st) =
     (if arp_enabled (arp (soundConfig st)) \<and> nextArpTime st - LOOKAHEAD \<le> audioNow inp
      then [PlayArpNote (max (audioNow inp) (nextArpTime st))] else [])"
  by (simp add: schedule_arp_def Let_def)

lemma schedule_arp_keeps:
  "soundConfig (fst (schedule_arp inp st)) = soundConfig st"
  "nextMelodyTime (fst (schedule_arp inp st)) = nextMelodyTime st"
  "nextRhythmTime (fst (schedule_arp inp st)) = nextRhythmTime st"
  "liveAudioState (fst (schedule_arp inp st)) = liveAudioState st"
  "nextArpTime (fst (schedule_arp inp st)) =
     (if arp_enabled (arp (soundConfig st)) \<and> nextArpTime st - LOOKAHEAD \<le> audioNow inp
      then nextArpTime st + arp_interval (liveAudioState st)
      else nextArpTime st)"
  by (simp_all add: schedule_arp_def Let_def playArpNote_keeps)

lemma schedule_rhythm_calls:
  "snd (schedule_rhythm inp st) =
     (if rhythm_enabled (rhythm (soundConfig st)) \<and> nextRhythmTime st - LOOKAHEAD \<le> audioNow inp
      then [PlayRhythm (max (audioNow inp) (nextRhythmTime st))] else [])"
  by (simp add: schedule_rhythm_def Let_def)

lemma schedule_rhythm_keeps:
  "nextMelodyTime (fst (schedule_rhythm inp st)) = nextMelodyTime st"
  "nextArpTime (fst (schedule_rhythm inp st)) = nextArpTime st"
  "nextRhythmTime (fst (schedule_rhythm inp st)) =
     (if rhythm_enabled (rhythm (soundConfig st)) \<and> nextRhythmTime st - LOOKAHEAD \<le> audioNow inp
      then nextRhythmTime st + rhythm_interval (liveAudioState st)
      else nextRhythmTime st)"
  by (simp_all add: schedule_rhythm_def Let_def)

lemma schedule_calls:
  "snd (schedule inp st) =
     snd (schedule_melody inp st) @ snd (schedule_arp inp st) @ snd (schedule_rhythm inp st)"
  by (simp add: schedule_def split_beta schedule_arp_calls schedule_rhythm_calls
      schedule_melody_keeps schedule_arp_keeps)

lemma schedule_next:
  "nextMelodyTime (fst (schedule inp st)) = nextMelodyTime (fst (schedule_melody inp st))"
  "nextArpTime (fst (schedule inp st)) = nextArpTime (fst (schedule_arp inp st))"
  "nextRhythmTime (fst (schedule inp st)) = nextRhythmTime (fst (schedule_rhythm inp st))"
  by (simp_all add: schedule_def split_beta schedule_melody_keeps schedule_arp_keeps
      schedule_rhythm_keeps)

text \<open>
  Claim C7 (scheduler lookahead, no past events), as the code has it. In a frame whose
  scheduling runs, an instrument's slot is taken exactly when the instrument is enabled
  and the audio clock is within the 0.1 s lookahead of its next-event time
  (audioNow \<ge> nextEventTime - 0.1): the next-event time is then advanced by the
  instrument's interval, and otherwise left alone. The arpeggio and the rhythm fire an
  event (their generator is called) in exactly those frames; the melody fires one only
  if, in addition, the random draw is below the routed melody density. Every fired event
  is passed the time max(audioNow, nextEventTime), so no event is given a time before the
  audio clock.
\<close>

theorem C7_scheduler_lookahead:
  "snd (schedule inp st) =
     (if melody_enabled (melody (soundConfig st)) \<and> nextMelodyTime st - 0.1 \<le> audioNow inp
         \<and> rndMelodyDraw inp < melodyDensity (liveAudioState st)
      then [PlayGenerativeNote (max (audioNow inp) (nextMelodyTime st))] else [])
     @ (if arp_enabled (arp (soundConfig st)) \<and> nextArpTime st - 0.1 \<le> audioNow inp
        then [PlayArpNote (max (audioNow inp) (nextArpTime st))] else [])
     @ (if rhythm_enabled (rhythm (soundConfig st)) \<and> nextRhythmTime st - 0.1 \<le> audioNow inp
        then [PlayRhythm (max (audioNow inp) (nextRhythmTime st))] else [])
   \<and> nextMelodyTime (fst (schedule inp st)) =
       (if melody_enabled (melody (soundConfig st)) \<and> nextMelodyTime st - 0.1 \<le> audioNow inp
        then nextMelodyTime st + melody_interval (liveAudioState st) (rndMelodyInterval inp)
        else nextMelodyTime st)
   \<and> nextArpTime (fst (schedule inp st)) =
       (if arp_enabled (arp (soundConfig st)) \<and> nextArpTime st - 0.1 \<le> audioNow inp
        then nextArpTime st + arp_interval (liveAudioState st)
        else nextArpTime st)
   \<and> nextRhythmTime (fst (schedule inp st)) =
       (if rhythm_enabled (rhythm (soundConfig st)) \<and> nextRhythmTime st - 0.1 \<le> audioNow inp
        then nextRhythmTime st + rhythm_interval (liveAudioState st)
        else nextRhythmTime st)
   \<and> (\<forall>c \<in> set (snd (schedule inp st)). \<forall>t. call_time c = Some t \<longrightarrow> audioNow inp \<le> t)"
proof -
  have "\<forall>c \<in> set (snd (schedule inp st)). \<forall>t. call_time c = Some t \<longrightarrow> audioNow inp \<le> t"
    by (auto simp: schedule_calls schedule_melody_calls schedule_arp_calls schedule_rhythm_calls
        split: if_splits)
  moreover have "snd (schedule inp st) =
     (if melody_enabled (melody (soundConfig st)) \<and> nextMelodyTime st - 0.1 \<le> audioNow inp
         \<and> rndMelodyDraw inp < melodyDensity (liveAudioState st)
      then [PlayGenerativeNote (max (audioNow inp) (nextMelodyTime st))] else [])
     @ (if arp_enabled (arp (soundConfig st)) \<and> nextArpTime st - 0.1 \<le> audioNow inp
        then [PlayArpNote (max (audioNow inp) (nextArpTime st))] else [])
     @ (if rhythm_enabled (rhythm (soundConfig st)) \<and> nextRhythmTime st - 0.1 \<le> audioNow inp
        then [PlayRhythm (max (audioNow inp) (nextRhythmTime st))] else [])"
    unfolding schedule_calls schedule_melody_calls schedule_arp_calls schedule_rhythm_calls
      LOOKAHEAD_def by simp
  moreover have "nextMelodyTime (fst (schedule inp st)) =
       (if melody_enabled (melody (soundConfig st)) \<and> nextMelodyTime st - 0.1 \<le> audioNow inp
        then nextMelodyTime st + melody_interval (liveAudioState st) (rndMelodyInterval inp)
        else nextMelodyTime st)"
    unfolding schedule_next schedule_melody_keeps LOOKAHEAD_def by simp
  moreover have "nextArpTime (fst (schedule inp st)) =
       (if arp_enabled (arp (soundConfig st)) \<and> nextArpTime st - 0.1 \<le> audioNow inp
        then nextArpTime st + arp_interval (liveAudioState st)
        else nextArpTime st)"
    unfolding schedule_next schedule_arp_keeps LOOKAHEAD_def by simp
  moreover have "nextRhythmTime (fst (schedule inp st)) =
       (if rhythm_enabled (rhythm (soundConfig st)) \<and> nextRhythmTime st - 0.1 \<le> audioNow inp
        then nextRhythmTime st + rhythm_interval (liveAudioState st)
        else nextRhythmTime st)"
    unfolding schedule_next schedule_rhythm_keeps LOOKAHEAD_def by simp
  ultimately show ?thesis by (intro conjI)
qed

lemma playing_store_fields:
  "soundConfig playing_store = defaultSoundConfig"
  "nextMelodyTime playing_store = 2"
  "nextArpTime playing_store = 1 / 2"
  "nextRhythmTime playing_store = 1 / 10"
  "melodyDensity (liveAudioState playing_store) = 4 / 10"
  "rhythmBpm (liveAudioState playing_store) = 60"
  "arpSpeed (liveAudioState playing_store) = 1"
  by (simp_all add: playing_store_def initAudio_def initialStore_def Let_def defaultSoundConfig_def)

text \<open>
  The melody does not fire whenever the clock is within the lookahead: with the default
  configuration, melody enabled and due (next-event time 2, audio clock 2), a random
  draw of 0.9 against the density 0.4 fires no melody event; the frame fires the
  arpeggio and the rhythm only.
\<close>

theorem C7_melody_density_counterexample:
  "melody_enabled (melody (soundConfig playing_store))
   \<and> nextMelodyTime playing_store - 0.1 \<le> audioNow frame_at_2
   \<and> snd (schedule frame_at_2 playing_store) = [PlayArpNote 2, PlayRhythm 2]"
  by (simp add: schedule_calls schedule_melody_calls schedule_arp_calls schedule_rhythm_calls
      playing_store_fields frame_at_2_def LOOKAHEAD_def)
     (simp add: defaultSoundConfig_def)

text \<open>
  C7 after a stall: the clocks were set at audio time 0 (rhythm due at 0.1, arpeggio at
  0.5, melody at 2) and the next frame comes at audio time 3 with a draw of 0.1. All
  three instruments fire, each with play time 3, and the rhythm is rescheduled to 1.1.
\<close>

theorem C7_scheduler_lookahead_witness:
  "snd (schedule (frame_at_2\<lparr>audioNow := 3, rndMelodyDraw := 0.1\<rparr>) playing_store)
     = [PlayGenerativeNote 3, PlayArpNote 3, PlayRhythm 3]
   \<and> nextRhythmTime (fst (schedule (frame_at_2\<lparr>audioNow := 3, rndMelodyDraw := 0.1\<rparr>) playing_store))
       = 11 / 10
   \<and> (\<exists>c. c \<in> set (snd (schedule (frame_at_2\<lparr>audioNow := 3, rndMelodyDraw := 0.1\<rparr>) playing_store))
          \<and> call_time c = Some 3)"
proof -
  let ?inp = "frame_at_2\<lparr>audioNow := 3, rndMelodyDraw := 0.1\<rparr>"
  have e: "melody_enabled (melody defaultSoundConfig)" "arp_enabled (arp defaultSoundConfig)"
    "rhythm_enabled (rhythm defaultSoundConfig)"
    by (simp_all add: defaultSoundConfig_def)
  have i: "audioNow ?inp = 3" "rndMelodyDraw ?inp = 1 / 10"
    by (simp_all add: frame_at_2_def)
  note t = C7_scheduler_lookahead [of ?inp playing_store]
  have calls: "snd (schedule ?inp playing_store) = [PlayGenerativeNote 3, PlayArpNote 3, PlayRhythm 3]"
    using t [THEN conjunct1] by (simp add: playing_store_fields e i)
  have nr: "nextRhythmTime (fst (schedule ?inp playing_store)) = 11 / 10"
    using t [THEN conjunct2, THEN conjunct2, THEN conjunct2, THEN conjunct1]
    by (simp add: playing_store_fields e i rhythm_interval_def)
  have "PlayRhythm 3 \<in> set (snd (schedule ?inp playing_store))"
    by (simp add: calls)
  moreover have "call_time (PlayRhythm 3) = Some 3" by simp
  ultimately show ?thesis using calls nr by blast
qed







section \<open>Session snapshots: defaults on load and the round trip\<close>

lemma merged_None: "mergedSoundConfig None = defaultSoundConfig"
  by (simp add: mergedSoundConfig_def js_nullish_def merge_reverb_def merge_drone_def
      merge_atmosphere_def merge_melody_def merge_arp_def merge_rhythm_def)

lemma merged_modulations:
  "modulations (mergedSoundConfig l) =
     (case l of None \<Rightarrow> defaultModulations
      | Some sc \<Rightarrow> (case j_modulations sc of None \<Rightarrow> defaultModulations | Some ms \<Rightarrow> ms))"
  by (simp add: mergedSoundConfig_def defaultSoundConfig_def split: option.splits)

lemma apply_fields:
  "currentSessionId (applySessionState ss st) = js_nullish (j_sessionId ss) ''local-file''"
  "activeShaderCode (applySessionState ss st) = js_nullish (j_shaderCode ss) []"
  "cameraControlsEnabled (applySessionState ss st) = js_nullish (j_cameraControlsEnabled ss) False"
  "controlConfig (applySessionState ss st) = js_nullish (j_controlConfig ss) emptyControlConfig"
  "soundConfig (applySessionState ss st) = mergedSoundConfig (j_soundConfig ss)"
  "canvasSize (applySessionState ss st) = js_nullish (j_canvasSize ss) defaultCanvasSize"
  "viewMode (applySessionState ss st) = js_nullish (j_viewMode ss) Chase"
  "isHdEnabled (applySessionState ss st) = js_nullish (j_isHdEnabled ss) False"
  "isFpsEnabled (applySessionState ss st) = js_nullish (j_isFpsEnabled ss) False"
  "isHudEnabled (applySessionState ss st) = js_nullish (j_isHudEnabled ss) True"
  "collisionThresholdRed (applySessionState ss st) = js_nullish (j_collisionThresholdRed ss) 0.002"
  "collisionThresholdYellow (applySessionState ss st) = js_nullish (j_collisionThresholdYellow ss) 0.02"
  by (simp_all add: applySessionState_def Let_def cleanupAudio_def)

text \<open>
  Claim C8 (load-time defaults), as the code has it. A field that the loaded session
  omits falls back to its default: the red threshold to 0.002, the yellow one to 0.02,
  the session id to 'local-file', the shader to the empty text, the camera-controls, HD
  and FPS flags to false, the HUD flag to true, the control configuration to the empty
  one, the canvas size to '100%', the view mode to chase, and an absent sound
  configuration to the default one. A sound configuration without a modulations field
  gets the six default modulations, not an empty list, and loading it is not an error; a
  modulations field that is present, even an empty list, is taken as it is.
\<close>

theorem C8_load_defaults:
  "(j_collisionThresholdRed ss = None \<longrightarrow> collisionThresholdRed (applySessionState ss st) = 0.002)
   \<and> (j_collisionThresholdYellow ss = None \<longrightarrow> collisionThresholdYellow (applySessionState ss st) = 0.02)
   \<and> (j_sessionId ss = None \<longrightarrow> currentSessionId (applySessionState ss st) = ''local-file'')
   \<and> (j_shaderCode ss = None \<longrightarrow> activeShaderCode (applySessionState ss st) = [])
   \<and> (j_cameraControlsEnabled ss = None \<longrightarrow> \<not> cameraControlsEnabled (applySessionState ss st))
   \<and> (j_controlConfig ss = None \<longrightarrow> controlConfig (applySessionState ss st) = emptyControlConfig)
   \<and> (j_canvasSize ss = None \<longrightarrow> canvasSize (applySessionState ss st) = ''100%'')
   \<and> (j_viewMode ss = None \<longrightarrow> viewMode (applySessionState ss st) = Chase)
   \<and> (j_isHdEnabled ss = None \<longrightarrow> \<not> isHdEnabled (applySessionState ss st))
   \<and> (j_isFpsEnabled ss = None \<longrightarrow> \<not> isFpsEnabled (applySessionState ss st))
   \<and> (j_isHudEnabled ss = None \<longrightarrow> isHudEnabled (applySessionState ss st))
   \<and> (j_soundConfig ss = None \<longrightarrow> soundConfig (applySessionState ss st) = defaultSoundConfig)
   \<and> (\<forall>sc. j_soundConfig ss = Some sc \<and> j_modulations sc = None \<longrightarrow>
         modulations (soundConfig (applySessionState ss st)) = defaultModulations)
   \<and> (\<forall>sc ms. j_soundConfig ss = Some sc \<and> j_modulations sc = Some ms \<longrightarrow>
         modulations (soundConfig (applySessionState ss st)) = ms)
   \<and> length defaultModulations = 6"
  by (simp add: apply_fields js_nullish_def merged_None merged_modulations defaultCanvasSize_def
      defaultModulations_def)

text \<open>
  A sound configuration without a modulations field does not load with an empty
  modulation list: it loads with six modulations.
\<close>

theorem C8_absent_modulations_counterexample:
  "j_soundConfig bare_sound_session = Some bare_sound
   \<and> j_modulations bare_sound = None
   \<and> modulations (soundConfig (applySessionState bare_sound_session initialStore)) \<noteq> []
   \<and> length (modulations (soundConfig (applySessionState bare_sound_session initialStore))) = 6"
  by (simp add: apply_fields merged_modulations bare_sound_session_def bare_sound_def
      empty_session_def defaultModulations_def)

text \<open>
  C8 on the session file without fields, on the one whose sound configuration has no
  modulations field, and on one whose modulations field is the empty list.
\<close>

theorem C8_load_defaults_witness:
  "j_collisionThresholdRed empty_session = None
   \<and> collisionThresholdRed (applySessionState empty_session initialStore) = 0.002
   \<and> collisionThresholdYellow (applySessionState empty_session initialStore) = 0.02
   \<and> soundConfig (applySessionState empty_session initialStore) = defaultSoundConfig
   \<and> modulations (soundConfig (applySessionState bare_sound_session initialStore)) = defaultModulations
   \<and> modulations (soundConfig (applySessionState
        (empty_session\<lparr>j_soundConfig := Some (bare_sound\<lparr>j_modulations := Some []\<rparr>)\<rparr>) initialStore)) = []"
  using C8_load_defaults [of empty_session initialStore]
    C8_load_defaults [of bare_sound_session initialStore]
    C8_load_defaults [of "empty_session\<lparr>j_soundConfig := Some (bare_sound\<lparr>j_modulations := Some []\<rparr>)\<rparr>" initialStore]
  by (simp add: empty_session_def bare_sound_session_def bare_sound_def)

text \<open>
  Claim C9 (session round trip preserves modulations). Taking the snapshot of a store
  and applying it gives back the modulation list of the sound configuration as it was:
  the same entries in the same order, each with the same source, target, amount and
  enabled flag (and the same id). This holds for every list, so in particular for a
  list of three custom modulations. The collision thresholds come back unchanged too.
\<close>

theorem C9_roundtrip_modulations:
  "modulations (soundConfig (applySessionState (getSessionState st) st'))
     = modulations (soundConfig st)
   \<and> map (\<lambda>m. (mod_source m, mod_target m, mod_amount m, mod_enabled m))
        (modulations (soundConfig (applySessionState (getSessionState st) st')))
     = map (\<lambda>m. (mod_source m, mod_target m, mod_amount m, mod_enabled m))
        (modulations (soundConfig st))
   \<and> collisionThresholdRed (applySessionState (getSessionState st) st') = collisionThresholdRed st
   \<and> collisionThresholdYellow (applySessionState (getSessionState st) st') = collisionThresholdYellow st"
  by (simp add: apply_fields merged_modulations getSessionState_def soundConfig_json_def
      js_nullish_def)

end
